theory Spec2Isabelle
  imports Main
begin

section \<open>Python values\<close>

text \<open>
  The module \<^verbatim>\<open>salt/modules/influx.py\<close> is dynamically typed glue code: its arguments
  may be \<^verbatim>\<open>None\<close>, strings or integers, and what the client library hands back is
  inspected at run time (\<^verbatim>\<open>isinstance(dbs, list)\<close>, \<^verbatim>\<open>db['name']\<close>). The values it
  can meet are therefore one datatype. A dictionary is an association list, read with
  \<^const>\<open>map_of\<close>.
\<close>

datatype pyval =
    PNone
  | PBool bool
  | PInt int
  | PStr string
  | PList "pyval list"
  | PDict "(string \<times> pyval) list"

text \<open>Truth value testing, as \<^verbatim>\<open>if not user:\<close> and \<^verbatim>\<open>if database:\<close> apply it.\<close>

fun truthy :: "pyval \<Rightarrow> bool" where
  "truthy PNone = False"
| "truthy (PBool b) = b"
| "truthy (PInt i) = (i \<noteq> 0)"
| "truthy (PStr s) = (s \<noteq> [])"
| "truthy (PList xs) = (xs \<noteq> [])"
| "truthy (PDict kvs) = (kvs \<noteq> [])"

text \<open>\<^verbatim>\<open>isinstance(v, list)\<close>.\<close>

fun isinstance_list :: "pyval \<Rightarrow> bool" where
  "isinstance_list (PList xs) = True"
| "isinstance_list v = False"

text \<open>
  Exceptions are values. \<^verbatim>\<open>KeyError\<close> and \<^verbatim>\<open>TypeError\<close> are what the subscript
  \<^verbatim>\<open>db['name']\<close> raises; \<^verbatim>\<open>ClientError\<close> stands for anything the client library raises,
  which the module never catches.
\<close>

datatype error = KeyError string | TypeError | ClientError string

text \<open>The subscript \<^verbatim>\<open>v[key]\<close> with a string key.\<close>

fun getitem :: "pyval \<Rightarrow> string \<Rightarrow> error + pyval" where
  "getitem (PDict kvs) key =
     (case map_of kvs key of None \<Rightarrow> Inl (KeyError key) | Some v \<Rightarrow> Inr v)"
| "getitem v key = Inl TypeError"

text \<open>
  The comprehension \<^verbatim>\<open>[db['name'] for db in dbs]\<close>: evaluated left to right, the first
  failing subscript raises.
\<close>

fun names_of :: "pyval list \<Rightarrow> error + pyval list" where
  "names_of [] = Inr []"
| "names_of (x # xs) =
     (case getitem x ''name'' of
        Inl e \<Rightarrow> Inl e
      | Inr v \<Rightarrow> (case names_of xs of Inl e \<Rightarrow> Inl e | Inr vs \<Rightarrow> Inr (v # vs)))"

section \<open>The client library and the ambient configuration\<close>

text \<open>
  \<^verbatim>\<open>influxdb.InfluxDBClient(host=host, port=port, username=user, password=password)\<close>:
  the handle is the four keyword arguments it was built from.
\<close>

record InfluxDBClient =
  cl_host :: pyval
  cl_port :: pyval
  cl_username :: pyval
  cl_password :: pyval

text \<open>The methods of the handle that the module calls, with their arguments.\<close>

datatype invocation =
    get_database_list
  | create_database pyval
  | delete_database pyval
  | switch_db pyval
  | get_database_users
  | get_list_cluster_admins
  | add_database_user pyval pyval
  | add_cluster_admin pyval pyval
  | update_database_user_password pyval pyval
  | update_cluster_admin_password pyval pyval
  | delete_database_user pyval
  | delete_cluster_admin pyval
  | client_query pyval pyval pyval

text \<open>
  A record of \<^verbatim>\<open>log.info(fmt.format(*args))\<close>: the format string and the arguments
  given to \<^verbatim>\<open>format\<close>.
\<close>

datatype logrec = Info string "pyval list"

text \<open>
  What the module is given from outside: \<^verbatim>\<open>__salt__['config.option']\<close>, a callable
  of a key and a default, and the behaviour of the client library, which maps a handle,
  a method call and the state of the outside world to a returned value or a raised
  exception and the next state of the world.
\<close>

record 'w env =
  config_option :: "string \<Rightarrow> pyval \<Rightarrow> pyval"
  respond :: "InfluxDBClient \<Rightarrow> invocation \<Rightarrow> 'w \<Rightarrow> (error + pyval) \<times> 'w"

text \<open>
  The state threaded through a call of the module: the outside world, every method
  call made on a client handle so far (what a spy on the client would record), and the
  messages logged.
\<close>

record 'w state =
  world :: 'w
  calls :: "(InfluxDBClient \<times> invocation) list"
  logged :: "logrec list"

text \<open>Sequencing: an exception ends the computation and is propagated.\<close>

definition then_do ::
  "('s \<Rightarrow> (error + 'a) \<times> 's) \<Rightarrow> ('a \<Rightarrow> 's \<Rightarrow> (error + 'b) \<times> 's) \<Rightarrow> 's \<Rightarrow> (error + 'b) \<times> 's"
where
  "then_do m f s = (case m s of (Inl e, s') \<Rightarrow> (Inl e, s') | (Inr x, s') \<Rightarrow> f x s')"

text \<open>One method call on a handle: recorded, answered by the library.\<close>

definition call ::
  "'w env \<Rightarrow> InfluxDBClient \<Rightarrow> invocation \<Rightarrow> 'w state \<Rightarrow> (error + pyval) \<times> 'w state"
where
  "call env c m s =
     (case respond env c m (world s) of
        (r, w') \<Rightarrow> (r, s\<lparr>world := w', calls := calls s @ [(c, m)]\<rparr>))"

definition log_info :: "string \<Rightarrow> pyval list \<Rightarrow> 'w state \<Rightarrow> 'w state" where
  "log_info fmt args s = s\<lparr>logged := logged s @ [Info fmt args]\<rparr>"

section \<open>The module\<close>

text \<open>\<^verbatim>\<open>_client(user=None, password=None, host=None, port=None)\<close>\<close>

definition client :: "'w env \<Rightarrow> pyval \<Rightarrow> pyval \<Rightarrow> pyval \<Rightarrow> pyval \<Rightarrow> InfluxDBClient" where
  "client env user password host port =
     (let user = (if \<not> truthy user
                  then config_option env ''influxdb.user'' (PStr ''root'') else user);
          password = (if \<not> truthy password
                  then config_option env ''influxdb.password'' (PStr ''root'') else password);
          host = (if \<not> truthy host
                  then config_option env ''influxdb.host'' (PStr ''localhost'') else host);
          port = (if \<not> truthy port
                  then config_option env ''influxdb.port'' (PInt 8086) else port)
      in \<lparr>cl_host = host, cl_port = port, cl_username = user, cl_password = password\<rparr>)"

text \<open>\<^verbatim>\<open>db_list(user=None, password=None, host=None, port=None)\<close>\<close>

definition db_list ::
  "'w env \<Rightarrow> pyval \<Rightarrow> pyval \<Rightarrow> pyval \<Rightarrow> pyval \<Rightarrow> 'w state \<Rightarrow> (error + pyval) \<times> 'w state"
where
  "db_list env user password host port =
     call env (client env user password host port) get_database_list"

text \<open>
  The tail shared by \<^verbatim>\<open>db_exists\<close> and \<^verbatim>\<open>user_exists\<close>:
  \<^verbatim>\<open>if not isinstance(xs, list): return False\<close> and then
  \<^verbatim>\<open>return name in [x['name'] for x in xs]\<close>.
\<close>

definition name_in_listing :: "string \<Rightarrow> pyval \<Rightarrow> 's \<Rightarrow> (error + bool) \<times> 's" where
  "name_in_listing name listing s =
     (if \<not> isinstance_list listing then (Inr False, s)
      else case listing of
             PList xs \<Rightarrow>
               (case names_of xs of
                  Inl e \<Rightarrow> (Inl e, s)
                | Inr ns \<Rightarrow> (Inr (PStr name \<in> set ns), s))
           | _ \<Rightarrow> (Inr False, s))"

text \<open>\<^verbatim>\<open>db_exists(name, user=None, password=None, host=None, port=None)\<close>\<close>

definition db_exists ::
  "'w env \<Rightarrow> string \<Rightarrow> pyval \<Rightarrow> pyval \<Rightarrow> pyval \<Rightarrow> pyval \<Rightarrow> 'w state \<Rightarrow> (error + bool) \<times> 'w state"
where
  "db_exists env name user password host port =
     then_do (db_list env user password host port) (name_in_listing name)"

text \<open>\<^verbatim>\<open>db_create(name, user=None, password=None, host=None, port=None)\<close>\<close>

definition db_create ::
  "'w env \<Rightarrow> string \<Rightarrow> pyval \<Rightarrow> pyval \<Rightarrow> pyval \<Rightarrow> pyval \<Rightarrow> 'w state \<Rightarrow> (error + pyval) \<times> 'w state"
where
  "db_create env name user password host port =
     then_do (db_exists env name PNone PNone PNone PNone) (\<lambda>found s.
       if found
       then (Inr (PBool False), log_info ''DB {0!r} already exists'' [PStr name] s)
       else call env (client env user password host port) (create_database (PStr name)) s)"

text \<open>\<^verbatim>\<open>db_remove(name, user=None, password=None, host=None, port=None)\<close>\<close>

definition db_remove ::
  "'w env \<Rightarrow> string \<Rightarrow> pyval \<Rightarrow> pyval \<Rightarrow> pyval \<Rightarrow> pyval \<Rightarrow> 'w state \<Rightarrow> (error + pyval) \<times> 'w state"
where
  "db_remove env name user password host port =
     then_do (db_exists env name PNone PNone PNone PNone) (\<lambda>found s.
       if \<not> found
       then (Inr (PBool False), log_info ''DB {0!r} does not exist'' [PStr name] s)
       else call env (client env user password host port) (delete_database (PStr name)) s)"

text \<open>\<^verbatim>\<open>user_list(database=None, user=None, password=None, host=None, port=None)\<close>\<close>

definition user_list ::
  "'w env \<Rightarrow> pyval \<Rightarrow> pyval \<Rightarrow> pyval \<Rightarrow> pyval \<Rightarrow> pyval \<Rightarrow> 'w state \<Rightarrow> (error + pyval) \<times> 'w state"
where
  "user_list env database user password host port =
     (let c = client env user password host port in
      if truthy database
      then then_do (call env c (switch_db database)) (\<lambda>_. call env c get_database_users)
      else call env c get_list_cluster_admins)"

text \<open>
  \<^verbatim>\<open>user_exists(name, database=None, user=None, password=None, host=None, port=None)\<close>
\<close>

definition user_exists ::
  "'w env \<Rightarrow> string \<Rightarrow> pyval \<Rightarrow> pyval \<Rightarrow> pyval \<Rightarrow> pyval \<Rightarrow> pyval \<Rightarrow> 'w state
     \<Rightarrow> (error + bool) \<times> 'w state"
where
  "user_exists env name database user password host port =
     then_do (user_list env database user password host port) (name_in_listing name)"

text \<open>
  \<^verbatim>\<open>user_create(name, passwd, database=None, user=None, password=None, host=None, port=None)\<close>.
  Both format strings of the database branch name \<^verbatim>\<open>{0!r}\<close> twice, as the source has it.
\<close>

definition user_create ::
  "'w env \<Rightarrow> string \<Rightarrow> pyval \<Rightarrow> pyval \<Rightarrow> pyval \<Rightarrow> pyval \<Rightarrow> pyval \<Rightarrow> pyval \<Rightarrow> 'w state
     \<Rightarrow> (error + pyval) \<times> 'w state"
where
  "user_create env name passwd database user password host port =
     then_do (user_exists env name database PNone PNone PNone PNone) (\<lambda>found s.
       if found
       then (Inr (PBool False),
             (if truthy database
              then log_info ''User {0!r} already exists for DB {0!r}'' [PStr name, database] s
              else log_info ''Cluster admin {0!r} already exists'' [PStr name] s))
       else (let c = client env user password host port in
             if truthy database
             then then_do (call env c (switch_db database))
                    (\<lambda>_. call env c (add_database_user (PStr name) passwd)) s
             else call env c (add_cluster_admin (PStr name) passwd) s))"

text \<open>
  \<^verbatim>\<open>user_chpass(name, passwd, database=None, user=None, password=None, host=None, port=None)\<close>
\<close>

definition user_chpass ::
  "'w env \<Rightarrow> string \<Rightarrow> pyval \<Rightarrow> pyval \<Rightarrow> pyval \<Rightarrow> pyval \<Rightarrow> pyval \<Rightarrow> pyval \<Rightarrow> 'w state
     \<Rightarrow> (error + pyval) \<times> 'w state"
where
  "user_chpass env name passwd database user password host port =
     then_do (user_exists env name database PNone PNone PNone PNone) (\<lambda>found s.
       if \<not> found
       then (Inr (PBool False),
             (if truthy database
              then log_info ''User {0!r} does not exist for DB {0!r}'' [PStr name, database] s
              else log_info ''Cluster admin {0!r} does not exist'' [PStr name] s))
       else (let c = client env user password host port in
             if truthy database
             then then_do (call env c (switch_db database))
                    (\<lambda>_. call env c (update_database_user_password (PStr name) passwd)) s
             else call env c (update_cluster_admin_password (PStr name) passwd) s))"

text \<open>
  \<^verbatim>\<open>user_remove(name, database=None, user=None, password=None, host=None, port=None)\<close>.
  The two delete calls are given \<^verbatim>\<open>user\<close>, as the source has it.
\<close>

definition user_remove ::
  "'w env \<Rightarrow> string \<Rightarrow> pyval \<Rightarrow> pyval \<Rightarrow> pyval \<Rightarrow> pyval \<Rightarrow> pyval \<Rightarrow> 'w state
     \<Rightarrow> (error + pyval) \<times> 'w state"
where
  "user_remove env name database user password host port =
     then_do (user_exists env name database PNone PNone PNone PNone) (\<lambda>found s.
       if \<not> found
       then (Inr (PBool False),
             (if truthy database
              then log_info ''User {0!r} does not exist for DB {0!r}'' [PStr name, database] s
              else log_info ''Cluster admin {0!r} does not exist'' [PStr name] s))
       else (let c = client env user password host port in
             if truthy database
             then then_do (call env c (switch_db database))
                    (\<lambda>_. call env c (delete_database_user user)) s
             else call env c (delete_cluster_admin user) s))"

text \<open>
  \<^verbatim>\<open>query(database, query, time_precision='s', chunked=False, user=None, password=None,
  host=None, port=None)\<close>. The two arguments whose default is not \<^verbatim>\<open>None\<close> are options:
  \<^const>\<open>None\<close> is the argument left out.
\<close>

definition query ::
  "'w env \<Rightarrow> pyval \<Rightarrow> pyval \<Rightarrow> pyval option \<Rightarrow> pyval option \<Rightarrow> pyval \<Rightarrow> pyval \<Rightarrow> pyval \<Rightarrow> pyval
     \<Rightarrow> 'w state \<Rightarrow> (error + pyval) \<times> 'w state"
where
  "query env database q time_precision chunked user password host port =
     (let time_precision = (case time_precision of None \<Rightarrow> PStr ''s'' | Some v \<Rightarrow> v);
          chunked = (case chunked of None \<Rightarrow> PBool False | Some v \<Rightarrow> v);
          c = client env user password host port
      in then_do (call env c (switch_db database))
           (\<lambda>_. call env c (client_query q time_precision chunked)))"

section \<open>Reading the record of calls\<close>




text \<open>
  The calls of a principal listing and of a principal action on handle \<open>c\<close>, in the order
  \<^verbatim>\<open>user_list\<close> and the three principal mutations make them: under a database, the
  switch and then the database-user operation \<open>dbm\<close>; otherwise the cluster-admin
  operation \<open>adm\<close> alone.
\<close>

definition action_calls ::
  "InfluxDBClient \<Rightarrow> pyval \<Rightarrow> invocation \<Rightarrow> invocation \<Rightarrow> (InfluxDBClient \<times> invocation) list"
where
  "action_calls c database dbm adm =
     (if truthy database then [(c, switch_db database), (c, dbm)] else [(c, adm)])"

definition listing_calls :: "InfluxDBClient \<Rightarrow> pyval \<Rightarrow> (InfluxDBClient \<times> invocation) list" where
  "listing_calls c database = action_calls c database get_database_users get_list_cluster_admins"

section \<open>A reference server\<close>

text \<open>
  A stand-in for the client library talking to real servers, the way a test would
  mock it: one in-memory server per host and port, holding database names, cluster
  admins and (database, user) pairs, and for each handle the database it was last
  switched to. Listings are lists of records with a \<^verbatim>\<open>name\<close> field; a mutation that
  cannot be carried out raises.
\<close>

record server =
  srv_dbs :: "string list"
  srv_admins :: "string list"
  srv_users :: "(string \<times> string) list"

record mock =
  servers :: "pyval \<times> pyval \<Rightarrow> server"
  current :: "InfluxDBClient \<Rightarrow> pyval"

definition name_record :: "string \<Rightarrow> pyval" where
  "name_record n = PDict [(''name'', PStr n)]"

definition server_of :: "mock \<Rightarrow> InfluxDBClient \<Rightarrow> server" where
  "server_of w c = servers w (cl_host c, cl_port c)"

definition on_server :: "mock \<Rightarrow> InfluxDBClient \<Rightarrow> (server \<Rightarrow> server) \<Rightarrow> mock" where
  "on_server w c f = w\<lparr>servers := (servers w)((cl_host c, cl_port c) := f (server_of w c))\<rparr>"

definition users_in :: "string \<Rightarrow> server \<Rightarrow> string list" where
  "users_in d sv = map snd (filter (\<lambda>du. fst du = d) (srv_users sv))"

fun mock_respond :: "InfluxDBClient \<Rightarrow> invocation \<Rightarrow> mock \<Rightarrow> (error + pyval) \<times> mock" where
  "mock_respond c get_database_list w =
     (Inr (PList (map name_record (srv_dbs (server_of w c)))), w)"
| "mock_respond c (create_database (PStr n)) w =
     (if n \<in> set (srv_dbs (server_of w c)) then (Inl (ClientError ''database exists''), w)
      else (Inr (PBool True), on_server w c (\<lambda>sv. sv\<lparr>srv_dbs := srv_dbs sv @ [n]\<rparr>)))"
| "mock_respond c (delete_database (PStr n)) w =
     (if n \<in> set (srv_dbs (server_of w c))
      then (Inr (PBool True), on_server w c (\<lambda>sv. sv\<lparr>srv_dbs := removeAll n (srv_dbs sv)\<rparr>))
      else (Inl (ClientError ''no such database''), w))"
| "mock_respond c (switch_db d) w = (Inr (PBool True), w\<lparr>current := (current w)(c := d)\<rparr>)"
| "mock_respond c get_database_users w =
     (case current w c of
        PStr d \<Rightarrow> (Inr (PList (map name_record (users_in d (server_of w c)))), w)
      | _ \<Rightarrow> (Inl (ClientError ''no database selected''), w))"
| "mock_respond c get_list_cluster_admins w =
     (Inr (PList (map name_record (srv_admins (server_of w c)))), w)"
| "mock_respond c (add_database_user (PStr n) p) w =
     (case current w c of
        PStr d \<Rightarrow>
          (if n \<in> set (users_in d (server_of w c)) then (Inl (ClientError ''user exists''), w)
           else (Inr (PBool True), on_server w c (\<lambda>sv. sv\<lparr>srv_users := srv_users sv @ [(d, n)]\<rparr>)))
      | _ \<Rightarrow> (Inl (ClientError ''no database selected''), w))"
| "mock_respond c (add_cluster_admin (PStr n) p) w =
     (if n \<in> set (srv_admins (server_of w c)) then (Inl (ClientError ''admin exists''), w)
      else (Inr (PBool True), on_server w c (\<lambda>sv. sv\<lparr>srv_admins := srv_admins sv @ [n]\<rparr>)))"
| "mock_respond c (update_database_user_password (PStr n) p) w =
     (case current w c of
        PStr d \<Rightarrow>
          (if n \<in> set (users_in d (server_of w c)) then (Inr (PBool True), w)
           else (Inl (ClientError ''no such user''), w))
      | _ \<Rightarrow> (Inl (ClientError ''no database selected''), w))"
| "mock_respond c (update_cluster_admin_password (PStr n) p) w =
     (if n \<in> set (srv_admins (server_of w c)) then (Inr (PBool True), w)
      else (Inl (ClientError ''no such admin''), w))"
| "mock_respond c (delete_database_user (PStr n)) w =
     (case current w c of
        PStr d \<Rightarrow>
          (if n \<in> set (users_in d (server_of w c))
           then (Inr (PBool True),
                 on_server w c (\<lambda>sv. sv\<lparr>srv_users := removeAll (d, n) (srv_users sv)\<rparr>))
           else (Inl (ClientError ''no such user''), w))
      | _ \<Rightarrow> (Inl (ClientError ''no database selected''), w))"
| "mock_respond c (delete_cluster_admin (PStr n)) w =
     (if n \<in> set (srv_admins (server_of w c))
      then (Inr (PBool True), on_server w c (\<lambda>sv. sv\<lparr>srv_admins := removeAll n (srv_admins sv)\<rparr>))
      else (Inl (ClientError ''no such admin''), w))"
| "mock_respond c (client_query q tp ch) w = (Inr (PList []), w)"
| "mock_respond c m w = (Inl (ClientError ''bad argument''), w)"

text \<open>
  The module run against the reference server, with \<open>opt\<close> for \<^verbatim>\<open>config.option\<close>;
  \<open>no_config\<close> is the lookup of a configuration without \<^verbatim>\<open>influxdb\<close> settings, which
  gives every default back.
\<close>

definition mock_env :: "(string \<Rightarrow> pyval \<Rightarrow> pyval) \<Rightarrow> mock env" where
  "mock_env opt = \<lparr>config_option = opt, respond = mock_respond\<rparr>"

definition no_config :: "string \<Rightarrow> pyval \<Rightarrow> pyval" where
  "no_config key dflt = dflt"

text \<open>An empty server behind every host and port, no handle switched, nothing called.\<close>

definition empty_server :: server where
  "empty_server = \<lparr>srv_dbs = [], srv_admins = [], srv_users = []\<rparr>"

definition fresh :: "mock state" where
  "fresh = \<lparr>world = \<lparr>servers = (\<lambda>k. empty_server), current = (\<lambda>c. PNone)\<rparr>,
            calls = [], logged = []\<rparr>"

text \<open>
  The simplest stand-in: no configuration (every lookup gives its default) and a
  library that answers every method call with the same value.
\<close>

definition canned :: "pyval \<Rightarrow> unit env" where
  "canned v = \<lparr>config_option = no_config, respond = (\<lambda>c m w. (Inr v, w))\<rparr>"

definition idle :: "unit state" where
  "idle = \<lparr>world = (), calls = [], logged = []\<rparr>"

text \<open>The handle built from no argument and no configuration.\<close>

definition default_client :: InfluxDBClient where
  "default_client = \<lparr>cl_host = PStr ''localhost'', cl_port = PInt 8086,
                     cl_username = PStr ''root'', cl_password = PStr ''root''\<rparr>"

section \<open>What a call of the module records\<close>

lemma call_calls:
  "call env c m s = (r, s') \<Longrightarrow> calls s' = calls s @ [(c, m)] \<and> logged s' = logged s"
  by (auto simp: call_def split: prod.splits)

lemma name_in_listing_state: "name_in_listing name v s = (r, s') \<Longrightarrow> s' = s"
  by (auto simp: name_in_listing_def split: if_splits pyval.splits sum.splits)

lemma name_in_listing_not_list:
  "\<not> isinstance_list v \<Longrightarrow> name_in_listing name v s = (Inr False, s)"
  by (simp add: name_in_listing_def)

lemma names_of_Inr:
  "\<forall>x\<in>set xs. \<exists>v. getitem x ''name'' = Inr v \<Longrightarrow>
   \<exists>ns. names_of xs = Inr ns \<and> set ns = {v. \<exists>x\<in>set xs. getitem x ''name'' = Inr v}"
proof (induction xs)
  case Nil
  then show ?case by simp
next
  case (Cons x xs)
  then obtain v where v: "getitem x ''name'' = Inr v" by auto
  from Cons obtain ns where ns: "names_of xs = Inr ns"
    "set ns = {v. \<exists>x\<in>set xs. getitem x ''name'' = Inr v}" by auto
  show ?case using v ns by auto
qed

lemma db_exists_calls:
  "db_exists env name user password host port s = (r, s') \<Longrightarrow>
   calls s' = calls s @ [(client env user password host port, get_database_list)]
   \<and> logged s' = logged s"
  unfolding db_exists_def db_list_def then_do_def
  by (auto split: prod.splits sum.splits dest!: call_calls name_in_listing_state)

lemma user_list_calls:
  "user_list env database user password host port s = (r, s') \<Longrightarrow>
   logged s' = logged s \<and>
   (let c = client env user password host port in
    if truthy database
    then (calls s' = calls s @ [(c, switch_db database)] \<and> (\<exists>e. r = Inl e))
         \<or> calls s' = calls s @ [(c, switch_db database), (c, get_database_users)]
    else calls s' = calls s @ [(c, get_list_cluster_admins)])"
  unfolding user_list_def then_do_def Let_def
  by (auto split: prod.splits sum.splits if_splits dest!: call_calls)

lemma user_exists_calls:
  "user_exists env name database user password host port s = (r, s') \<Longrightarrow>
   logged s' = logged s \<and>
   (let c = client env user password host port in
    if truthy database
    then (calls s' = calls s @ [(c, switch_db database)] \<and> (\<exists>e. r = Inl e))
         \<or> calls s' = calls s @ [(c, switch_db database), (c, get_database_users)]
    else calls s' = calls s @ [(c, get_list_cluster_admins)])"
  unfolding user_exists_def then_do_def
  by (auto split: prod.splits sum.splits dest!: user_list_calls name_in_listing_state simp: Let_def)

lemma client_canned [simp]:
  "client (canned v) PNone PNone PNone PNone = default_client"
  by (simp add: client_def canned_def no_config_def default_client_def)

lemma call_canned [simp]:
  "call (canned v) c m s = (Inr v, s\<lparr>calls := calls s @ [(c, m)]\<rparr>)"
  by (simp add: call_def canned_def)

section \<open>The existence check\<close>

text \<open>
  Claim C3. The existence check fails open: whenever the listing call (\<^verbatim>\<open>db_list\<close>, or
  \<^verbatim>\<open>user_list\<close> for either scope) returns a value that is not a list, such as an
  in-band error marker, \<^verbatim>\<open>db_exists\<close> and \<^verbatim>\<open>user_exists\<close> return \<^verbatim>\<open>False\<close>; they do
  not raise, and they leave the state as the listing call left it.
\<close>

theorem exists_fail_open:
  "(db_list env user password host port s = (Inr v, s') \<and> \<not> isinstance_list v
      \<longrightarrow> db_exists env name user password host port s = (Inr False, s'))
   \<and> (user_list env database user password host port s = (Inr v, s') \<and> \<not> isinstance_list v
      \<longrightarrow> user_exists env name database user password host port s = (Inr False, s'))"
  by (simp add: db_exists_def user_exists_def then_do_def name_in_listing_not_list)

theorem exists_fail_open_witness:
  "db_list (canned (PStr ''401 Unauthorized'')) PNone PNone PNone PNone idle
     = (Inr (PStr ''401 Unauthorized''), idle\<lparr>calls := [(default_client, get_database_list)]\<rparr>)
   \<and> \<not> isinstance_list (PStr ''401 Unauthorized'')
   \<and> db_exists (canned (PStr ''401 Unauthorized'')) ''metrics'' PNone PNone PNone PNone idle
     = (Inr False, idle\<lparr>calls := [(default_client, get_database_list)]\<rparr>)
   \<and> user_list (canned (PStr ''401 Unauthorized'')) PNone PNone PNone PNone PNone idle
     = (Inr (PStr ''401 Unauthorized''), idle\<lparr>calls := [(default_client, get_list_cluster_admins)]\<rparr>)
   \<and> user_exists (canned (PStr ''401 Unauthorized'')) ''alice'' PNone PNone PNone PNone PNone idle
     = (Inr False, idle\<lparr>calls := [(default_client, get_list_cluster_admins)]\<rparr>)"
proof -
  let ?E = "canned (PStr ''401 Unauthorized'')"
  have d: "db_list ?E PNone PNone PNone PNone idle
           = (Inr (PStr ''401 Unauthorized''), idle\<lparr>calls := [(default_client, get_database_list)]\<rparr>)"
    by (simp add: db_list_def idle_def)
  have u: "user_list ?E PNone PNone PNone PNone PNone idle
           = (Inr (PStr ''401 Unauthorized''), idle\<lparr>calls := [(default_client, get_list_cluster_admins)]\<rparr>)"
    by (simp add: user_list_def idle_def)
  have n: "\<not> isinstance_list (PStr ''401 Unauthorized'')" by simp
  note t = exists_fail_open [where env = ?E and user = PNone and password = PNone and host = PNone
      and port = PNone and database = PNone and s = idle and v = "PStr ''401 Unauthorized''"]
  from t [where name = "''metrics''"] d n
  have a: "db_exists ?E ''metrics'' PNone PNone PNone PNone idle
           = (Inr False, idle\<lparr>calls := [(default_client, get_database_list)]\<rparr>)"
    by blast
  from t [where name = "''alice''"] u n
  have b: "user_exists ?E ''alice'' PNone PNone PNone PNone PNone idle
           = (Inr False, idle\<lparr>calls := [(default_client, get_list_cluster_admins)]\<rparr>)"
    by blast
  show ?thesis using d n a u b by blast
qed

text \<open>
  Claim C8. When the listing call returns a list of records that each have a
  \<^verbatim>\<open>name\<close> field, \<^verbatim>\<open>db_exists\<close> and \<^verbatim>\<open>user_exists\<close> return \<^verbatim>\<open>True\<close> exactly when some
  record of the listing has the queried string as its \<^verbatim>\<open>name\<close> field: the comparison
  is equality of strings, with no normalisation and no partial match. (An element
  without a \<^verbatim>\<open>name\<close> field makes the subscript raise; see \<^const>\<open>names_of\<close>.)
\<close>

theorem exists_is_exact_name_match:
  "(db_list env user password host port s = (Inr (PList xs), s')
      \<and> (\<forall>x\<in>set xs. \<exists>v. getitem x ''name'' = Inr v)
      \<longrightarrow> db_exists env name user password host port s
            = (Inr (\<exists>x\<in>set xs. getitem x ''name'' = Inr (PStr name)), s'))
   \<and> (user_list env database user password host port s = (Inr (PList xs), s')
      \<and> (\<forall>x\<in>set xs. \<exists>v. getitem x ''name'' = Inr v)
      \<longrightarrow> user_exists env name database user password host port s
            = (Inr (\<exists>x\<in>set xs. getitem x ''name'' = Inr (PStr name)), s'))"
proof -
  have k: "name_in_listing name (PList xs) s'
           = (Inr (\<exists>x\<in>set xs. getitem x ''name'' = Inr (PStr name)), s')"
    if "\<forall>x\<in>set xs. \<exists>v. getitem x ''name'' = Inr v" for s' :: "'a state"
  proof -
    from names_of_Inr[OF that] obtain ns where ns: "names_of xs = Inr ns"
      "set ns = {v. \<exists>x\<in>set xs. getitem x ''name'' = Inr v}" by auto
    show ?thesis using ns by (simp add: name_in_listing_def)
  qed
  show ?thesis
    by (simp add: db_exists_def user_exists_def then_do_def k)
qed

theorem exists_is_exact_name_match_witness:
  "db_exists (canned (PList [PDict [(''name'', PStr ''metrics'')], PDict [(''name'', PStr ''logs'')]]))
       ''metrics'' PNone PNone PNone PNone idle
     = (Inr True, idle\<lparr>calls := [(default_client, get_database_list)]\<rparr>)
   \<and> db_exists (canned (PList [PDict [(''name'', PStr ''metrics'')], PDict [(''name'', PStr ''logs'')]]))
       ''metric'' PNone PNone PNone PNone idle
     = (Inr False, idle\<lparr>calls := [(default_client, get_database_list)]\<rparr>)
   \<and> user_exists (canned (PList [PDict [(''name'', PStr ''metrics'')], PDict [(''name'', PStr ''logs'')]]))
       ''Logs'' PNone PNone PNone PNone PNone idle
     = (Inr False, idle\<lparr>calls := [(default_client, get_list_cluster_admins)]\<rparr>)"
proof -
  let ?xs = "[PDict [(''name'', PStr ''metrics'')], PDict [(''name'', PStr ''logs'')]]"
  let ?E = "canned (PList ?xs)"
  have d: "db_list ?E PNone PNone PNone PNone idle
           = (Inr (PList ?xs), idle\<lparr>calls := [(default_client, get_database_list)]\<rparr>)"
    by (simp add: db_list_def idle_def)
  have u: "user_list ?E PNone PNone PNone PNone PNone idle
           = (Inr (PList ?xs), idle\<lparr>calls := [(default_client, get_list_cluster_admins)]\<rparr>)"
    by (simp add: user_list_def idle_def)
  have w: "\<forall>x\<in>set ?xs. \<exists>v. getitem x ''name'' = Inr v" by simp
  note t = exists_is_exact_name_match [where env = ?E and user = PNone and password = PNone
      and host = PNone and port = PNone and database = PNone and s = idle and xs = ?xs]
  from t [where name = "''metrics''"] d w
  have a: "db_exists ?E ''metrics'' PNone PNone PNone PNone idle
           = (Inr True, idle\<lparr>calls := [(default_client, get_database_list)]\<rparr>)"
    by simp
  from t [where name = "''metric''"] d w
  have b: "db_exists ?E ''metric'' PNone PNone PNone PNone idle
           = (Inr False, idle\<lparr>calls := [(default_client, get_database_list)]\<rparr>)"
    by simp
  from t [where name = "''Logs''"] u w
  have c: "user_exists ?E ''Logs'' PNone PNone PNone PNone PNone idle
           = (Inr False, idle\<lparr>calls := [(default_client, get_list_cluster_admins)]\<rparr>)"
    by simp
  show ?thesis using a b c by blast
qed

section \<open>The module against the reference server\<close>

lemma names_of_name_records: "names_of (map name_record ns) = Inr (map PStr ns)"
  by (induction ns) (simp_all add: name_record_def)

lemma name_in_name_records:
  "name_in_listing name (PList (map name_record ns)) s = (Inr (name \<in> set ns), s)"
  by (auto simp: name_in_listing_def names_of_name_records)

lemma server_of_current [simp]: "server_of (w\<lparr>current := f\<rparr>) c = server_of w c"
  by (simp add: server_of_def)

lemma server_of_on_server [simp]: "server_of (on_server w c f) c = f (server_of w c)"
  by (simp add: server_of_def on_server_def)

lemma current_on_server [simp]: "current (on_server w c f) = current w"
  by (simp add: on_server_def)

lemma users_in_added [simp]:
  "users_in d (sv\<lparr>srv_users := srv_users sv @ [(d, n)]\<rparr>) = users_in d sv @ [n]"
  by (simp add: users_in_def)

lemma respond_mock [simp]: "respond (mock_env opt) = mock_respond"
  by (simp add: mock_env_def)

lemma client_mock_no_config [simp]:
  "client (mock_env no_config) PNone PNone PNone PNone = default_client"
  by (simp add: client_def mock_env_def no_config_def default_client_def)

lemma mock_db_exists:
  "db_exists (mock_env opt) name user password host port s
   = (Inr (name \<in> set (srv_dbs (server_of (world s) (client (mock_env opt) user password host port)))),
      s\<lparr>calls := calls s @ [(client (mock_env opt) user password host port, get_database_list)]\<rparr>)"
  by (simp add: db_exists_def db_list_def then_do_def call_def name_in_name_records)

lemma mock_user_exists_admin:
  "\<not> truthy database \<Longrightarrow>
   user_exists (mock_env opt) name database user password host port s
   = (Inr (name \<in> set (srv_admins (server_of (world s) (client (mock_env opt) user password host port)))),
      s\<lparr>calls := calls s @ [(client (mock_env opt) user password host port, get_list_cluster_admins)]\<rparr>)"
  by (simp add: user_exists_def user_list_def then_do_def call_def name_in_name_records)

lemma mock_user_exists_db:
  "d \<noteq> [] \<Longrightarrow>
   user_exists (mock_env opt) name (PStr d) user password host port s
   = (let c = client (mock_env opt) user password host port in
      (Inr (name \<in> set (users_in d (server_of (world s) c))),
       s\<lparr>world := (world s)\<lparr>current := (current (world s))(c := PStr d)\<rparr>,
         calls := calls s @ [(c, switch_db (PStr d)), (c, get_database_users)]\<rparr>))"
  by (simp add: user_exists_def user_list_def then_do_def call_def name_in_name_records Let_def)

lemma mock_db_create_twice:
  assumes "db_create (mock_env opt) name PNone PNone PNone PNone s = (r1, t1)"
      and "db_create (mock_env opt) name PNone PNone PNone PNone t1 = (r2, t2)"
  shows "name \<in> set (srv_dbs (server_of (world t1) (client (mock_env opt) PNone PNone PNone PNone)))
         \<and> r2 = Inr (PBool False) \<and> world t2 = world t1
         \<and> calls t2 = calls t1 @ [(client (mock_env opt) PNone PNone PNone PNone, get_database_list)]"
  using assms
  by (auto simp: db_create_def then_do_def mock_db_exists call_def log_info_def
           split: if_splits)

lemma mock_admin_create_twice:
  assumes "user_create (mock_env opt) name passwd PNone PNone PNone PNone PNone s = (r1, t1)"
      and "user_create (mock_env opt) name passwd PNone PNone PNone PNone PNone t1 = (r2, t2)"
  shows "name \<in> set (srv_admins (server_of (world t1) (client (mock_env opt) PNone PNone PNone PNone)))
         \<and> r2 = Inr (PBool False) \<and> world t2 = world t1
         \<and> calls t2 = calls t1 @ [(client (mock_env opt) PNone PNone PNone PNone, get_list_cluster_admins)]"
  using assms
  by (auto simp: user_create_def then_do_def mock_user_exists_admin call_def log_info_def Let_def
           split: if_splits)

lemma mock_user_create_twice:
  assumes "d \<noteq> []"
      and "user_create (mock_env opt) name passwd (PStr d) PNone PNone PNone PNone s = (r1, t1)"
      and "user_create (mock_env opt) name passwd (PStr d) PNone PNone PNone PNone t1 = (r2, t2)"
  shows "name \<in> set (users_in d (server_of (world t1) (client (mock_env opt) PNone PNone PNone PNone)))
         \<and> r2 = Inr (PBool False) \<and> servers (world t2) = servers (world t1)
         \<and> calls t2 = calls t1 @ [(client (mock_env opt) PNone PNone PNone PNone, switch_db (PStr d)),
                                  (client (mock_env opt) PNone PNone PNone PNone, get_database_users)]"
  using assms
  by (auto simp: user_create_def then_do_def mock_user_exists_db call_def log_info_def Let_def
           split: if_splits)

lemma fresh_simps [simp]:
  "calls fresh = []" "logged fresh = []"
  "server_of (world fresh) c = empty_server" "current (world fresh) c = PNone"
  by (simp_all add: fresh_def server_of_def)

lemma empty_server_simps [simp]:
  "srv_dbs empty_server = []" "srv_admins empty_server = []" "srv_users empty_server = []"
  by (simp_all add: empty_server_def)

section \<open>Guarded mutations\<close>

text \<open>
  What holds of create. For every name and whatever connection arguments are given:
  when the existence check (\<^verbatim>\<open>db_exists(name)\<close>, resp. \<^verbatim>\<open>user_exists(name, database)\<close>)
  reports the target present, \<^verbatim>\<open>db_create\<close> and \<^verbatim>\<open>user_create\<close> return \<^verbatim>\<open>False\<close>, log one
  informational message and make no client call beyond the listing of the check. And
  a create without connection arguments called twice in immediate succession against
  the reference server, from any state of it: after the first call the name is in the
  collection, and the second call returns \<^verbatim>\<open>False\<close>, makes only the listing call and
  leaves every server as it was.
\<close>

lemma create_guard_and_repeat:
  "(db_exists env name PNone PNone PNone PNone s = (Inr True, s1)
      \<longrightarrow> db_create env name user password host port s
            = (Inr (PBool False), s1\<lparr>logged := logged s1 @ [Info ''DB {0!r} already exists'' [PStr name]]\<rparr>)
          \<and> calls s1 = calls s @ [(client env PNone PNone PNone PNone, get_database_list)])
   \<and> (user_exists env name database PNone PNone PNone PNone s = (Inr True, s1)
      \<longrightarrow> user_create env name passwd database user password host port s
            = (Inr (PBool False),
               s1\<lparr>logged := logged s1 @
                  [if truthy database
                   then Info ''User {0!r} already exists for DB {0!r}'' [PStr name, database]
                   else Info ''Cluster admin {0!r} already exists'' [PStr name]]\<rparr>)
          \<and> calls s1 = calls s @
               (if truthy database
                then [(client env PNone PNone PNone PNone, switch_db database),
                      (client env PNone PNone PNone PNone, get_database_users)]
                else [(client env PNone PNone PNone PNone, get_list_cluster_admins)]))
   \<and> (db_create (mock_env opt) name PNone PNone PNone PNone t = (r1, t1)
        \<and> db_create (mock_env opt) name PNone PNone PNone PNone t1 = (r2, t2)
      \<longrightarrow> name \<in> set (srv_dbs (server_of (world t1) (client (mock_env opt) PNone PNone PNone PNone)))
          \<and> r2 = Inr (PBool False) \<and> world t2 = world t1
          \<and> calls t2 = calls t1 @ [(client (mock_env opt) PNone PNone PNone PNone, get_database_list)])
   \<and> (user_create (mock_env opt) name passwd PNone PNone PNone PNone PNone t = (r1, t1)
        \<and> user_create (mock_env opt) name passwd PNone PNone PNone PNone PNone t1 = (r2, t2)
      \<longrightarrow> name \<in> set (srv_admins (server_of (world t1) (client (mock_env opt) PNone PNone PNone PNone)))
          \<and> r2 = Inr (PBool False) \<and> world t2 = world t1
          \<and> calls t2 = calls t1 @ [(client (mock_env opt) PNone PNone PNone PNone, get_list_cluster_admins)])
   \<and> (d \<noteq> [] \<and> user_create (mock_env opt) name passwd (PStr d) PNone PNone PNone PNone t = (r1, t1)
        \<and> user_create (mock_env opt) name passwd (PStr d) PNone PNone PNone PNone t1 = (r2, t2)
      \<longrightarrow> name \<in> set (users_in d (server_of (world t1) (client (mock_env opt) PNone PNone PNone PNone)))
          \<and> r2 = Inr (PBool False) \<and> servers (world t2) = servers (world t1)
          \<and> calls t2 = calls t1 @ [(client (mock_env opt) PNone PNone PNone PNone, switch_db (PStr d)),
                                   (client (mock_env opt) PNone PNone PNone PNone, get_database_users)])"
proof (intro conjI)
  show "db_exists env name PNone PNone PNone PNone s = (Inr True, s1)
      \<longrightarrow> db_create env name user password host port s
            = (Inr (PBool False), s1\<lparr>logged := logged s1 @ [Info ''DB {0!r} already exists'' [PStr name]]\<rparr>)
          \<and> calls s1 = calls s @ [(client env PNone PNone PNone PNone, get_database_list)]"
  proof (intro impI conjI)
    assume a: "db_exists env name PNone PNone PNone PNone s = (Inr True, s1)"
    show "db_create env name user password host port s
          = (Inr (PBool False), s1\<lparr>logged := logged s1 @ [Info ''DB {0!r} already exists'' [PStr name]]\<rparr>)"
      using a by (simp add: db_create_def then_do_def log_info_def)
    show "calls s1 = calls s @ [(client env PNone PNone PNone PNone, get_database_list)]"
      using db_exists_calls [OF a] by simp
  qed
next
  show "user_exists env name database PNone PNone PNone PNone s = (Inr True, s1)
      \<longrightarrow> user_create env name passwd database user password host port s
            = (Inr (PBool False),
               s1\<lparr>logged := logged s1 @
                  [if truthy database
                   then Info ''User {0!r} already exists for DB {0!r}'' [PStr name, database]
                   else Info ''Cluster admin {0!r} already exists'' [PStr name]]\<rparr>)
          \<and> calls s1 = calls s @
               (if truthy database
                then [(client env PNone PNone PNone PNone, switch_db database),
                      (client env PNone PNone PNone PNone, get_database_users)]
                else [(client env PNone PNone PNone PNone, get_list_cluster_admins)])"
  proof (intro impI conjI)
    assume a: "user_exists env name database PNone PNone PNone PNone s = (Inr True, s1)"
    show "user_create env name passwd database user password host port s
            = (Inr (PBool False),
               s1\<lparr>logged := logged s1 @
                  [if truthy database
                   then Info ''User {0!r} already exists for DB {0!r}'' [PStr name, database]
                   else Info ''Cluster admin {0!r} already exists'' [PStr name]]\<rparr>)"
      using a by (simp add: user_create_def then_do_def log_info_def)
    show "calls s1 = calls s @
               (if truthy database
                then [(client env PNone PNone PNone PNone, switch_db database),
                      (client env PNone PNone PNone PNone, get_database_users)]
                else [(client env PNone PNone PNone PNone, get_list_cluster_admins)])"
      using user_exists_calls [OF a] by (auto simp: Let_def)
  qed
next
  show "db_create (mock_env opt) name PNone PNone PNone PNone t = (r1, t1)
        \<and> db_create (mock_env opt) name PNone PNone PNone PNone t1 = (r2, t2)
      \<longrightarrow> name \<in> set (srv_dbs (server_of (world t1) (client (mock_env opt) PNone PNone PNone PNone)))
          \<and> r2 = Inr (PBool False) \<and> world t2 = world t1
          \<and> calls t2 = calls t1 @ [(client (mock_env opt) PNone PNone PNone PNone, get_database_list)]"
    using mock_db_create_twice by blast
next
  show "user_create (mock_env opt) name passwd PNone PNone PNone PNone PNone t = (r1, t1)
        \<and> user_create (mock_env opt) name passwd PNone PNone PNone PNone PNone t1 = (r2, t2)
      \<longrightarrow> name \<in> set (srv_admins (server_of (world t1) (client (mock_env opt) PNone PNone PNone PNone)))
          \<and> r2 = Inr (PBool False) \<and> world t2 = world t1
          \<and> calls t2 = calls t1 @ [(client (mock_env opt) PNone PNone PNone PNone, get_list_cluster_admins)]"
    using mock_admin_create_twice by blast
next
  show "d \<noteq> [] \<and> user_create (mock_env opt) name passwd (PStr d) PNone PNone PNone PNone t = (r1, t1)
        \<and> user_create (mock_env opt) name passwd (PStr d) PNone PNone PNone PNone t1 = (r2, t2)
      \<longrightarrow> name \<in> set (users_in d (server_of (world t1) (client (mock_env opt) PNone PNone PNone PNone)))
          \<and> r2 = Inr (PBool False) \<and> servers (world t2) = servers (world t1)
          \<and> calls t2 = calls t1 @ [(client (mock_env opt) PNone PNone PNone PNone, switch_db (PStr d)),
                                   (client (mock_env opt) PNone PNone PNone PNone, get_database_users)]"
    using mock_user_create_twice by blast
qed

lemma create_guard_and_repeat_example:
  "db_exists (canned (PList [PDict [(''name'', PStr ''metrics'')]])) ''metrics'' PNone PNone PNone PNone idle
     = (Inr True, idle\<lparr>calls := [(default_client, get_database_list)]\<rparr>)
   \<and> db_create (canned (PList [PDict [(''name'', PStr ''metrics'')]])) ''metrics''
        (PStr ''admin'') (PStr ''secret'') (PStr ''db2'') (PInt 8087) idle
     = (Inr (PBool False),
        idle\<lparr>calls := [(default_client, get_database_list)],
             logged := [Info ''DB {0!r} already exists'' [PStr ''metrics'']]\<rparr>)
   \<and> user_create (canned (PList [PDict [(''name'', PStr ''alice'')]])) ''alice'' (PStr ''pw123'')
        (PStr ''metrics'') PNone PNone PNone PNone idle
     = (Inr (PBool False),
        idle\<lparr>calls := [(default_client, switch_db (PStr ''metrics'')), (default_client, get_database_users)],
             logged := [Info ''User {0!r} already exists for DB {0!r}'' [PStr ''alice'', PStr ''metrics'']]\<rparr>)
   \<and> fst (db_create (mock_env no_config) ''metrics'' PNone PNone PNone PNone fresh) = Inr (PBool True)
   \<and> fst (db_create (mock_env no_config) ''metrics'' PNone PNone PNone PNone
            (snd (db_create (mock_env no_config) ''metrics'' PNone PNone PNone PNone fresh)))
       = Inr (PBool False)
   \<and> fst (user_create (mock_env no_config) ''bob'' (PStr ''pw456'') PNone PNone PNone PNone PNone
            (snd (user_create (mock_env no_config) ''bob'' (PStr ''pw456'') PNone PNone PNone PNone PNone fresh)))
       = Inr (PBool False)
   \<and> fst (user_create (mock_env no_config) ''alice'' (PStr ''pw123'') (PStr ''metrics'') PNone PNone PNone PNone
            (snd (user_create (mock_env no_config) ''alice'' (PStr ''pw123'') (PStr ''metrics'')
                    PNone PNone PNone PNone fresh)))
       = Inr (PBool False)"
proof -
  let ?D = "canned (PList [PDict [(''name'', PStr ''metrics'')]])"
  let ?U = "canned (PList [PDict [(''name'', PStr ''alice'')]])"
  let ?M = "mock_env no_config"
  have g1: "db_exists ?D ''metrics'' PNone PNone PNone PNone idle
            = (Inr True, idle\<lparr>calls := [(default_client, get_database_list)]\<rparr>)"
    by (simp add: db_exists_def db_list_def then_do_def name_in_listing_def idle_def)
  have g2: "user_exists ?U ''alice'' (PStr ''metrics'') PNone PNone PNone PNone idle
            = (Inr True, idle\<lparr>calls := [(default_client, switch_db (PStr ''metrics'')),
                                        (default_client, get_database_users)]\<rparr>)"
    by (simp add: user_exists_def user_list_def then_do_def name_in_listing_def idle_def)
  from create_guard_and_repeat [where env = ?D and name = "''metrics''" and s = idle
      and user = "PStr ''admin''" and password = "PStr ''secret''" and host = "PStr ''db2''"
      and port = "PInt 8087", THEN conjunct1] g1
  have a: "db_create ?D ''metrics'' (PStr ''admin'') (PStr ''secret'') (PStr ''db2'') (PInt 8087) idle
     = (Inr (PBool False),
        idle\<lparr>calls := [(default_client, get_database_list)],
             logged := [Info ''DB {0!r} already exists'' [PStr ''metrics'']]\<rparr>)"
    by (simp add: idle_def)
  from create_guard_and_repeat [where env = ?U and name = "''alice''" and s = idle
      and database = "PStr ''metrics''" and passwd = "PStr ''pw123''"
      and user = PNone and password = PNone and host = PNone
      and port = PNone, THEN conjunct2, THEN conjunct1] g2
  have b: "user_create ?U ''alice'' (PStr ''pw123'') (PStr ''metrics'') PNone PNone PNone PNone idle
     = (Inr (PBool False),
        idle\<lparr>calls := [(default_client, switch_db (PStr ''metrics'')), (default_client, get_database_users)],
             logged := [Info ''User {0!r} already exists for DB {0!r}'' [PStr ''alice'', PStr ''metrics'']]\<rparr>)"
    by (simp add: idle_def)
  have c: "fst (db_create ?M ''metrics'' PNone PNone PNone PNone fresh) = Inr (PBool True)"
    by (simp add: db_create_def then_do_def mock_db_exists call_def)
  from create_guard_and_repeat [where opt = no_config and t = fresh and name = "''metrics''",
      THEN conjunct2, THEN conjunct2, THEN conjunct1]
  have d: "fst (db_create ?M ''metrics'' PNone PNone PNone PNone
            (snd (db_create ?M ''metrics'' PNone PNone PNone PNone fresh))) = Inr (PBool False)"
    by (metis prod.collapse)
  from create_guard_and_repeat [where opt = no_config and t = fresh and name = "''bob''"
      and passwd = "PStr ''pw456''", THEN conjunct2, THEN conjunct2, THEN conjunct2, THEN conjunct1]
  have e: "fst (user_create ?M ''bob'' (PStr ''pw456'') PNone PNone PNone PNone PNone
            (snd (user_create ?M ''bob'' (PStr ''pw456'') PNone PNone PNone PNone PNone fresh)))
       = Inr (PBool False)"
    by (metis prod.collapse)
  have ne: "''metrics'' \<noteq> []" by simp
  from create_guard_and_repeat [where opt = no_config and t = fresh and name = "''alice''"
      and passwd = "PStr ''pw123''" and d = "''metrics''",
      THEN conjunct2, THEN conjunct2, THEN conjunct2, THEN conjunct2] ne
  have f: "fst (user_create ?M ''alice'' (PStr ''pw123'') (PStr ''metrics'') PNone PNone PNone PNone
            (snd (user_create ?M ''alice'' (PStr ''pw123'') (PStr ''metrics'')
                    PNone PNone PNone PNone fresh)))
       = Inr (PBool False)"
    by (metis prod.collapse)
  show ?thesis using g1 a b c d e f by blast
qed

text \<open>
  Claim C1 says that create is idempotent through its existence guard: a create called
  twice in immediate succession makes the second call a no-op returning \<^verbatim>\<open>False\<close>. The
  guard of \<^verbatim>\<open>db_create\<close> and \<^verbatim>\<open>user_create\<close> is called with the name (and database) only,
  so it lists on the configured connection, while the create call goes to the connection
  built from the arguments. With nothing configured and two empty servers,
  \<^verbatim>\<open>db_create('metrics', host='db2')\<close> returns \<^verbatim>\<open>True\<close>; called again at once, it lists
  \<^verbatim>\<open>localhost\<close> again, finds nothing, and calls \<^verbatim>\<open>create_database('metrics')\<close> on \<^verbatim>\<open>db2\<close> a
  second time, which the server refuses: the second call raises instead of returning
  \<^verbatim>\<open>False\<close>. \<^verbatim>\<open>user_create('bob', 'pw456', host='db2')\<close> does the same with
  \<^verbatim>\<open>add_cluster_admin\<close>.
\<close>

theorem create_twice_on_explicit_host_creates_again:
  "fst (db_create (mock_env no_config) ''metrics'' PNone PNone (PStr ''db2'') PNone fresh)
     = Inr (PBool True)
   \<and> fst (db_create (mock_env no_config) ''metrics'' PNone PNone (PStr ''db2'') PNone
            (snd (db_create (mock_env no_config) ''metrics'' PNone PNone (PStr ''db2'') PNone fresh)))
     = Inl (ClientError ''database exists'')
   \<and> calls (snd (db_create (mock_env no_config) ''metrics'' PNone PNone (PStr ''db2'') PNone
            (snd (db_create (mock_env no_config) ''metrics'' PNone PNone (PStr ''db2'') PNone fresh))))
     = [(default_client, get_database_list),
        (default_client\<lparr>cl_host := PStr ''db2''\<rparr>, create_database (PStr ''metrics'')),
        (default_client, get_database_list),
        (default_client\<lparr>cl_host := PStr ''db2''\<rparr>, create_database (PStr ''metrics''))]
   \<and> fst (user_create (mock_env no_config) ''bob'' (PStr ''pw456'') PNone PNone PNone (PStr ''db2'') PNone
            fresh)
     = Inr (PBool True)
   \<and> fst (user_create (mock_env no_config) ''bob'' (PStr ''pw456'') PNone PNone PNone (PStr ''db2'') PNone
            (snd (user_create (mock_env no_config) ''bob'' (PStr ''pw456'') PNone PNone PNone (PStr ''db2'')
                    PNone fresh)))
     = Inl (ClientError ''admin exists'')
   \<and> calls (snd (user_create (mock_env no_config) ''bob'' (PStr ''pw456'') PNone PNone PNone (PStr ''db2'')
            PNone
            (snd (user_create (mock_env no_config) ''bob'' (PStr ''pw456'') PNone PNone PNone (PStr ''db2'')
                    PNone fresh))))
     = [(default_client, get_list_cluster_admins),
        (default_client\<lparr>cl_host := PStr ''db2''\<rparr>, add_cluster_admin (PStr ''bob'') (PStr ''pw456'')),
        (default_client, get_list_cluster_admins),
        (default_client\<lparr>cl_host := PStr ''db2''\<rparr>, add_cluster_admin (PStr ''bob'') (PStr ''pw456''))]"
proof -
  let ?M = "mock_env no_config"
  let ?x = "default_client\<lparr>cl_host := PStr ''db2''\<rparr>"
  have cx: "client ?M PNone PNone (PStr ''db2'') PNone = ?x"
    by (simp add: client_def mock_env_def no_config_def default_client_def)
  have other [simp]: "server_of (on_server w ?x f) default_client = server_of w default_client"
    for w f
    by (simp add: server_of_def on_server_def default_client_def)
  define s1 where "s1 = snd (db_create ?M ''metrics'' PNone PNone (PStr ''db2'') PNone fresh)"
  define t1 where
    "t1 = snd (user_create ?M ''bob'' (PStr ''pw456'') PNone PNone PNone (PStr ''db2'') PNone fresh)"
  have d1: "db_create ?M ''metrics'' PNone PNone (PStr ''db2'') PNone fresh
            = (Inr (PBool True), s1)"
    unfolding s1_def
    by (simp add: db_create_def then_do_def mock_db_exists call_def cx)
  have ws1: "srv_dbs (server_of (world s1) default_client) = []"
            "srv_dbs (server_of (world s1) ?x) = [''metrics'']"
            "calls s1 = [(default_client, get_database_list), (?x, create_database (PStr ''metrics''))]"
    unfolding s1_def
    by (simp_all add: db_create_def then_do_def mock_db_exists call_def cx)
  have d2: "fst (db_create ?M ''metrics'' PNone PNone (PStr ''db2'') PNone s1)
            = Inl (ClientError ''database exists'')"
    using ws1 by (simp add: db_create_def then_do_def mock_db_exists call_def cx)
  have c2: "calls (snd (db_create ?M ''metrics'' PNone PNone (PStr ''db2'') PNone s1))
            = [(default_client, get_database_list), (?x, create_database (PStr ''metrics'')),
               (default_client, get_database_list), (?x, create_database (PStr ''metrics''))]"
    using ws1 by (simp add: db_create_def then_do_def mock_db_exists call_def cx)
  have u1: "user_create ?M ''bob'' (PStr ''pw456'') PNone PNone PNone (PStr ''db2'') PNone fresh
            = (Inr (PBool True), t1)"
    unfolding t1_def
    by (simp add: user_create_def then_do_def mock_user_exists_admin call_def cx Let_def)
  have wt1: "srv_admins (server_of (world t1) default_client) = []"
            "srv_admins (server_of (world t1) ?x) = [''bob'']"
            "calls t1 = [(default_client, get_list_cluster_admins),
                         (?x, add_cluster_admin (PStr ''bob'') (PStr ''pw456''))]"
    unfolding t1_def
    by (simp_all add: user_create_def then_do_def mock_user_exists_admin call_def cx Let_def)
  have u2: "fst (user_create ?M ''bob'' (PStr ''pw456'') PNone PNone PNone (PStr ''db2'') PNone t1)
            = Inl (ClientError ''admin exists'')"
    using wt1 by (simp add: user_create_def then_do_def mock_user_exists_admin call_def cx Let_def)
  have v2: "calls (snd (user_create ?M ''bob'' (PStr ''pw456'') PNone PNone PNone (PStr ''db2'') PNone t1))
            = [(default_client, get_list_cluster_admins),
               (?x, add_cluster_admin (PStr ''bob'') (PStr ''pw456'')),
               (default_client, get_list_cluster_admins),
               (?x, add_cluster_admin (PStr ''bob'') (PStr ''pw456''))]"
    using wt1 by (simp add: user_create_def then_do_def mock_user_exists_admin call_def cx Let_def)
  have f1: "fst (db_create ?M ''metrics'' PNone PNone (PStr ''db2'') PNone fresh) = Inr (PBool True)"
    using d1 by simp
  have g1: "fst (user_create ?M ''bob'' (PStr ''pw456'') PNone PNone PNone (PStr ''db2'') PNone fresh)
            = Inr (PBool True)"
    using u1 by simp
  show ?thesis
    using f1 d2 c2 g1 u2 v2 unfolding s1_def t1_def by blast
qed

text \<open>
  Claim C2. For every name that the existence check reports absent, \<^verbatim>\<open>db_remove\<close>,
  \<^verbatim>\<open>user_remove\<close> and \<^verbatim>\<open>user_chpass\<close> return \<^verbatim>\<open>False\<close>, log one message and make no
  client call beyond the listing of the check, so no delete and no password update
  reaches the client. When the check reports the target present, the result and the
  state are those of the one action call (after the switch of database, in the
  database-scoped branch) made from the state the check left.
\<close>

theorem remove_and_chpass_guard:
  "(db_exists env name PNone PNone PNone PNone s = (Inr False, s1)
      \<longrightarrow> db_remove env name user password host port s
            = (Inr (PBool False), s1\<lparr>logged := logged s1 @ [Info ''DB {0!r} does not exist'' [PStr name]]\<rparr>)
          \<and> calls s1 = calls s @ [(client env PNone PNone PNone PNone, get_database_list)])
   \<and> (db_exists env name PNone PNone PNone PNone s = (Inr True, s1)
      \<longrightarrow> db_remove env name user password host port s
            = call env (client env user password host port) (delete_database (PStr name)) s1)
   \<and> (user_exists env name database PNone PNone PNone PNone s = (Inr False, s1)
      \<longrightarrow> user_remove env name database user password host port s
            = (Inr (PBool False),
               s1\<lparr>logged := logged s1 @
                  [if truthy database
                   then Info ''User {0!r} does not exist for DB {0!r}'' [PStr name, database]
                   else Info ''Cluster admin {0!r} does not exist'' [PStr name]]\<rparr>)
          \<and> user_chpass env name passwd database user password host port s
            = (Inr (PBool False),
               s1\<lparr>logged := logged s1 @
                  [if truthy database
                   then Info ''User {0!r} does not exist for DB {0!r}'' [PStr name, database]
                   else Info ''Cluster admin {0!r} does not exist'' [PStr name]]\<rparr>)
          \<and> calls s1 = calls s @
               (if truthy database
                then [(client env PNone PNone PNone PNone, switch_db database),
                      (client env PNone PNone PNone PNone, get_database_users)]
                else [(client env PNone PNone PNone PNone, get_list_cluster_admins)]))
   \<and> (user_exists env name database PNone PNone PNone PNone s = (Inr True, s1)
      \<longrightarrow> user_remove env name database user password host port s
            = (if truthy database
               then then_do (call env (client env user password host port) (switch_db database))
                      (\<lambda>r. call env (client env user password host port) (delete_database_user user)) s1
               else call env (client env user password host port) (delete_cluster_admin user) s1)
          \<and> user_chpass env name passwd database user password host port s
            = (if truthy database
               then then_do (call env (client env user password host port) (switch_db database))
                      (\<lambda>r. call env (client env user password host port)
                               (update_database_user_password (PStr name) passwd)) s1
               else call env (client env user password host port)
                      (update_cluster_admin_password (PStr name) passwd) s1))"
proof (intro conjI)
  show "db_exists env name PNone PNone PNone PNone s = (Inr False, s1)
      \<longrightarrow> db_remove env name user password host port s
            = (Inr (PBool False), s1\<lparr>logged := logged s1 @ [Info ''DB {0!r} does not exist'' [PStr name]]\<rparr>)
          \<and> calls s1 = calls s @ [(client env PNone PNone PNone PNone, get_database_list)]"
  proof (intro impI conjI)
    assume a: "db_exists env name PNone PNone PNone PNone s = (Inr False, s1)"
    show "db_remove env name user password host port s
          = (Inr (PBool False), s1\<lparr>logged := logged s1 @ [Info ''DB {0!r} does not exist'' [PStr name]]\<rparr>)"
      using a by (simp add: db_remove_def then_do_def log_info_def)
    show "calls s1 = calls s @ [(client env PNone PNone PNone PNone, get_database_list)]"
      using db_exists_calls [OF a] by simp
  qed
next
  show "db_exists env name PNone PNone PNone PNone s = (Inr True, s1)
      \<longrightarrow> db_remove env name user password host port s
            = call env (client env user password host port) (delete_database (PStr name)) s1"
    by (simp add: db_remove_def then_do_def)
next
  show "user_exists env name database PNone PNone PNone PNone s = (Inr False, s1)
      \<longrightarrow> user_remove env name database user password host port s
            = (Inr (PBool False),
               s1\<lparr>logged := logged s1 @
                  [if truthy database
                   then Info ''User {0!r} does not exist for DB {0!r}'' [PStr name, database]
                   else Info ''Cluster admin {0!r} does not exist'' [PStr name]]\<rparr>)
          \<and> user_chpass env name passwd database user password host port s
            = (Inr (PBool False),
               s1\<lparr>logged := logged s1 @
                  [if truthy database
                   then Info ''User {0!r} does not exist for DB {0!r}'' [PStr name, database]
                   else Info ''Cluster admin {0!r} does not exist'' [PStr name]]\<rparr>)
          \<and> calls s1 = calls s @
               (if truthy database
                then [(client env PNone PNone PNone PNone, switch_db database),
                      (client env PNone PNone PNone PNone, get_database_users)]
                else [(client env PNone PNone PNone PNone, get_list_cluster_admins)])"
  proof (intro impI conjI)
    assume a: "user_exists env name database PNone PNone PNone PNone s = (Inr False, s1)"
    show "user_remove env name database user password host port s
            = (Inr (PBool False),
               s1\<lparr>logged := logged s1 @
                  [if truthy database
                   then Info ''User {0!r} does not exist for DB {0!r}'' [PStr name, database]
                   else Info ''Cluster admin {0!r} does not exist'' [PStr name]]\<rparr>)"
      using a by (simp add: user_remove_def then_do_def log_info_def)
    show "user_chpass env name passwd database user password host port s
            = (Inr (PBool False),
               s1\<lparr>logged := logged s1 @
                  [if truthy database
                   then Info ''User {0!r} does not exist for DB {0!r}'' [PStr name, database]
                   else Info ''Cluster admin {0!r} does not exist'' [PStr name]]\<rparr>)"
      using a by (simp add: user_chpass_def then_do_def log_info_def)
    show "calls s1 = calls s @
               (if truthy database
                then [(client env PNone PNone PNone PNone, switch_db database),
                      (client env PNone PNone PNone PNone, get_database_users)]
                else [(client env PNone PNone PNone PNone, get_list_cluster_admins)])"
      using user_exists_calls [OF a] by (auto simp: Let_def)
  qed
next
  show "user_exists env name database PNone PNone PNone PNone s = (Inr True, s1)
      \<longrightarrow> user_remove env name database user password host port s
            = (if truthy database
               then then_do (call env (client env user password host port) (switch_db database))
                      (\<lambda>r. call env (client env user password host port) (delete_database_user user)) s1
               else call env (client env user password host port) (delete_cluster_admin user) s1)
          \<and> user_chpass env name passwd database user password host port s
            = (if truthy database
               then then_do (call env (client env user password host port) (switch_db database))
                      (\<lambda>r. call env (client env user password host port)
                               (update_database_user_password (PStr name) passwd)) s1
               else call env (client env user password host port)
                      (update_cluster_admin_password (PStr name) passwd) s1)"
    by (simp add: user_remove_def user_chpass_def then_do_def Let_def)
qed

theorem remove_and_chpass_guard_witness:
  "db_exists (canned (PList [])) ''metrics'' PNone PNone PNone PNone idle
     = (Inr False, idle\<lparr>calls := [(default_client, get_database_list)]\<rparr>)
   \<and> db_remove (canned (PList [])) ''metrics'' PNone PNone PNone PNone idle
     = (Inr (PBool False),
        idle\<lparr>calls := [(default_client, get_database_list)],
             logged := [Info ''DB {0!r} does not exist'' [PStr ''metrics'']]\<rparr>)
   \<and> user_remove (canned (PList [])) ''alice'' (PStr ''metrics'') PNone PNone PNone PNone idle
     = (Inr (PBool False),
        idle\<lparr>calls := [(default_client, switch_db (PStr ''metrics'')), (default_client, get_database_users)],
             logged := [Info ''User {0!r} does not exist for DB {0!r}'' [PStr ''alice'', PStr ''metrics'']]\<rparr>)
   \<and> user_chpass (canned (PList [])) ''alice'' (PStr ''pw'') PNone PNone PNone PNone PNone idle
     = (Inr (PBool False),
        idle\<lparr>calls := [(default_client, get_list_cluster_admins)],
             logged := [Info ''Cluster admin {0!r} does not exist'' [PStr ''alice'']]\<rparr>)
   \<and> db_remove (canned (PBool True)) ''metrics'' PNone PNone PNone PNone idle
     = (Inr (PBool False),
        idle\<lparr>calls := [(default_client, get_database_list)],
             logged := [Info ''DB {0!r} does not exist'' [PStr ''metrics'']]\<rparr>)
   \<and> db_remove (canned (PList [PDict [(''name'', PStr ''metrics'')]])) ''metrics'' PNone PNone PNone PNone idle
     = (Inr (PList [PDict [(''name'', PStr ''metrics'')]]),
        idle\<lparr>calls := [(default_client, get_database_list),
                       (default_client, delete_database (PStr ''metrics''))]\<rparr>)
   \<and> user_chpass (canned (PList [PDict [(''name'', PStr ''alice'')]])) ''alice'' (PStr ''pw'')
        (PStr ''metrics'') PNone PNone PNone PNone idle
     = (Inr (PList [PDict [(''name'', PStr ''alice'')]]),
        idle\<lparr>calls := [(default_client, switch_db (PStr ''metrics'')),
                       (default_client, get_database_users),
                       (default_client, switch_db (PStr ''metrics'')),
                       (default_client, update_database_user_password (PStr ''alice'') (PStr ''pw''))]\<rparr>)"
proof -
  let ?N = "canned (PList [])"
  let ?D = "canned (PList [PDict [(''name'', PStr ''metrics'')]])"
  let ?U = "canned (PList [PDict [(''name'', PStr ''alice'')]])"
  have e1: "db_exists ?N ''metrics'' PNone PNone PNone PNone idle
            = (Inr False, idle\<lparr>calls := [(default_client, get_database_list)]\<rparr>)"
    by (simp add: db_exists_def db_list_def then_do_def name_in_listing_def idle_def)
  have e2: "user_exists ?N ''alice'' (PStr ''metrics'') PNone PNone PNone PNone idle
            = (Inr False, idle\<lparr>calls := [(default_client, switch_db (PStr ''metrics'')),
                                         (default_client, get_database_users)]\<rparr>)"
    by (simp add: user_exists_def user_list_def then_do_def name_in_listing_def idle_def)
  have e3: "user_exists ?N ''alice'' PNone PNone PNone PNone PNone idle
            = (Inr False, idle\<lparr>calls := [(default_client, get_list_cluster_admins)]\<rparr>)"
    by (simp add: user_exists_def user_list_def then_do_def name_in_listing_def idle_def)
  have e4: "db_exists (canned (PBool True)) ''metrics'' PNone PNone PNone PNone idle
            = (Inr False, idle\<lparr>calls := [(default_client, get_database_list)]\<rparr>)"
    by (simp add: db_exists_def db_list_def then_do_def name_in_listing_def idle_def)
  have e5: "db_exists ?D ''metrics'' PNone PNone PNone PNone idle
            = (Inr True, idle\<lparr>calls := [(default_client, get_database_list)]\<rparr>)"
    by (simp add: db_exists_def db_list_def then_do_def name_in_listing_def idle_def)
  have e6: "user_exists ?U ''alice'' (PStr ''metrics'') PNone PNone PNone PNone idle
            = (Inr True, idle\<lparr>calls := [(default_client, switch_db (PStr ''metrics'')),
                                        (default_client, get_database_users)]\<rparr>)"
    by (simp add: user_exists_def user_list_def then_do_def name_in_listing_def idle_def)
  note g = remove_and_chpass_guard [where s = idle and user = PNone and password = PNone
      and host = PNone and port = PNone]
  from g [where env = ?N and name = "''metrics''", THEN conjunct1] e1
  have a: "db_remove ?N ''metrics'' PNone PNone PNone PNone idle
     = (Inr (PBool False),
        idle\<lparr>calls := [(default_client, get_database_list)],
             logged := [Info ''DB {0!r} does not exist'' [PStr ''metrics'']]\<rparr>)"
    by (simp add: idle_def)
  from g [where env = ?N and name = "''alice''" and database = "PStr ''metrics''",
      THEN conjunct2, THEN conjunct2, THEN conjunct1] e2
  have b: "user_remove ?N ''alice'' (PStr ''metrics'') PNone PNone PNone PNone idle
     = (Inr (PBool False),
        idle\<lparr>calls := [(default_client, switch_db (PStr ''metrics'')), (default_client, get_database_users)],
             logged := [Info ''User {0!r} does not exist for DB {0!r}'' [PStr ''alice'', PStr ''metrics'']]\<rparr>)"
    by (simp add: idle_def)
  from g [where env = ?N and name = "''alice''" and database = PNone and passwd = "PStr ''pw''",
      THEN conjunct2, THEN conjunct2, THEN conjunct1] e3
  have c: "user_chpass ?N ''alice'' (PStr ''pw'') PNone PNone PNone PNone PNone idle
     = (Inr (PBool False),
        idle\<lparr>calls := [(default_client, get_list_cluster_admins)],
             logged := [Info ''Cluster admin {0!r} does not exist'' [PStr ''alice'']]\<rparr>)"
    by (simp add: idle_def)
  from g [where env = "canned (PBool True)" and name = "''metrics''", THEN conjunct1] e4
  have d: "db_remove (canned (PBool True)) ''metrics'' PNone PNone PNone PNone idle
     = (Inr (PBool False),
        idle\<lparr>calls := [(default_client, get_database_list)],
             logged := [Info ''DB {0!r} does not exist'' [PStr ''metrics'']]\<rparr>)"
    by (simp add: idle_def)
  from g [where env = ?D and name = "''metrics''", THEN conjunct2, THEN conjunct1] e5
  have e: "db_remove ?D ''metrics'' PNone PNone PNone PNone idle
     = (Inr (PList [PDict [(''name'', PStr ''metrics'')]]),
        idle\<lparr>calls := [(default_client, get_database_list),
                       (default_client, delete_database (PStr ''metrics''))]\<rparr>)"
    by (simp add: idle_def)
  from g [where env = ?U and name = "''alice''" and database = "PStr ''metrics''"
      and passwd = "PStr ''pw''", THEN conjunct2, THEN conjunct2, THEN conjunct2] e6
  have f: "user_chpass ?U ''alice'' (PStr ''pw'') (PStr ''metrics'') PNone PNone PNone PNone idle
     = (Inr (PList [PDict [(''name'', PStr ''alice'')]]),
        idle\<lparr>calls := [(default_client, switch_db (PStr ''metrics'')),
                       (default_client, get_database_users),
                       (default_client, switch_db (PStr ''metrics'')),
                       (default_client, update_database_user_password (PStr ''alice'') (PStr ''pw''))]\<rparr>)"
    by (simp add: idle_def then_do_def)
  show ?thesis using e1 a b c d e f by blast
qed

section \<open>The order of the calls\<close>

lemma action_calls_nonempty [simp]: "action_calls c database dbm adm \<noteq> []"
  by (simp add: action_calls_def)

lemma listing_calls_nonempty [simp]: "listing_calls c database \<noteq> []"
  by (simp add: listing_calls_def)

lemma prefix_of_guard_and_action:
  assumes "xs = take 1 G \<or> xs = G \<or> xs = G @ take 1 A \<or> xs = G @ A" and "G \<noteq> []"
  shows "\<exists>k\<ge>1. xs = take k (G @ A)"
proof -
  from assms(2) have len: "1 \<le> length G" by (cases G) simp_all
  from assms(1) consider "xs = take 1 G" | "xs = G" | "xs = G @ take 1 A" | "xs = G @ A" by blast
  then show ?thesis
  proof cases
    case 1
    then have "xs = take 1 (G @ A)" using len by simp
    then show ?thesis by blast
  next
    case 2
    then have "xs = take (length G) (G @ A)" by simp
    then show ?thesis using len by blast
  next
    case 3
    then have "xs = take (length G + 1) (G @ A)" by simp
    then show ?thesis by (metis le_add2)
  next
    case 4
    then have "xs = take (length G + length A) (G @ A)" by simp
    then show ?thesis using len by (metis trans_le_add1)
  qed
qed

lemma action_cases:
  assumes "(if truthy database
            then then_do (call env c (switch_db database)) (\<lambda>r. call env c dbm) s1
            else call env c adm s1) = (r, s')"
  shows "calls s' = calls s1 @ take 1 (action_calls c database dbm adm)
         \<or> calls s' = calls s1 @ action_calls c database dbm adm"
  using assms unfolding then_do_def action_calls_def
  by (auto split: prod.splits sum.splits if_splits dest!: call_calls)

lemma user_exists_cases:
  assumes "user_exists env name database user password host port s = (r, s1)"
  shows "(calls s1 = calls s @ take 1 (listing_calls (client env user password host port) database)
            \<and> (\<exists>e. r = Inl e))
         \<or> calls s1 = calls s @ listing_calls (client env user password host port) database"
  using user_exists_calls [OF assms]
  by (auto simp: listing_calls_def action_calls_def Let_def split: if_splits)

lemma log_info_calls [simp]: "calls (log_info fmt args s) = calls s"
  by (simp add: log_info_def)

lemma guarded_principal_calls:
  assumes chk: "user_exists env name database PNone PNone PNone PNone s = (r1, s1)"
      and fin: "(\<exists>e. r1 = Inl e) \<and> s' = s1 \<or> (\<exists>b. r1 = Inr b) \<and> calls s' = calls s1
                \<or> (\<exists>b r. r1 = Inr b \<and>
                     (if truthy database
                      then then_do (call env cx (switch_db database)) (\<lambda>r. call env cx dbm) s1
                      else call env cx adm s1) = (r, s'))"
  shows "\<exists>k\<ge>1. calls s' = calls s @ take k
           (listing_calls (client env PNone PNone PNone PNone) database
            @ action_calls cx database dbm adm)"
proof -
  let ?G = "listing_calls (client env PNone PNone PNone PNone) database"
  let ?A = "action_calls cx database dbm adm"
  have "\<exists>xs. calls s' = calls s @ xs
          \<and> (xs = take 1 ?G \<or> xs = ?G \<or> xs = ?G @ take 1 ?A \<or> xs = ?G @ ?A)"
    using user_exists_cases [OF chk] fin action_cases [of database env cx dbm s1 adm _ s']
    by (elim disjE conjE exE) auto
  then obtain xs where "calls s' = calls s @ xs"
    "xs = take 1 ?G \<or> xs = ?G \<or> xs = ?G @ take 1 ?A \<or> xs = ?G @ ?A" by blast
  with prefix_of_guard_and_action [of xs ?G ?A] show ?thesis by auto
qed

lemma user_create_prefix:
  assumes "user_create env name passwd database user password host port s = (r, s')"
  shows "\<exists>k\<ge>1. calls s' = calls s @ take k
           (listing_calls (client env PNone PNone PNone PNone) database
            @ action_calls (client env user password host port) database
                (add_database_user (PStr name) passwd) (add_cluster_admin (PStr name) passwd))"
proof -
  obtain r1 s1 where chk: "user_exists env name database PNone PNone PNone PNone s = (r1, s1)"
    by (cases "user_exists env name database PNone PNone PNone PNone s")
  show ?thesis
    using assms chk
    by (intro guarded_principal_calls [OF chk])
       (auto simp: user_create_def then_do_def Let_def split: sum.splits if_splits)
qed

lemma user_chpass_prefix:
  assumes "user_chpass env name passwd database user password host port s = (r, s')"
  shows "\<exists>k\<ge>1. calls s' = calls s @ take k
           (listing_calls (client env PNone PNone PNone PNone) database
            @ action_calls (client env user password host port) database
                (update_database_user_password (PStr name) passwd)
                (update_cluster_admin_password (PStr name) passwd))"
proof -
  obtain r1 s1 where chk: "user_exists env name database PNone PNone PNone PNone s = (r1, s1)"
    by (cases "user_exists env name database PNone PNone PNone PNone s")
  show ?thesis
    using assms chk
    by (intro guarded_principal_calls [OF chk])
       (auto simp: user_chpass_def then_do_def Let_def split: sum.splits if_splits)
qed

lemma user_remove_prefix:
  assumes "user_remove env name database user password host port s = (r, s')"
  shows "\<exists>k\<ge>1. calls s' = calls s @ take k
           (listing_calls (client env PNone PNone PNone PNone) database
            @ action_calls (client env user password host port) database
                (delete_database_user user) (delete_cluster_admin user))"
proof -
  obtain r1 s1 where chk: "user_exists env name database PNone PNone PNone PNone s = (r1, s1)"
    by (cases "user_exists env name database PNone PNone PNone PNone s")
  show ?thesis
    using assms chk
    by (intro guarded_principal_calls [OF chk])
       (auto simp: user_remove_def then_do_def Let_def split: sum.splits if_splits)
qed



lemma db_create_cases:
  assumes "db_create env name user password host port s = (r, s')"
  shows "calls s' = calls s @ [(client env PNone PNone PNone PNone, get_database_list)]
         \<or> calls s' = calls s @ [(client env PNone PNone PNone PNone, get_database_list),
                                 (client env user password host port, create_database (PStr name))]"
  using assms unfolding db_create_def then_do_def
  by (auto split: prod.splits sum.splits if_splits dest!: db_exists_calls call_calls)

lemma db_remove_cases:
  assumes "db_remove env name user password host port s = (r, s')"
  shows "calls s' = calls s @ [(client env PNone PNone PNone PNone, get_database_list)]
         \<or> calls s' = calls s @ [(client env PNone PNone PNone PNone, get_database_list),
                                 (client env user password host port, delete_database (PStr name))]"
  using assms unfolding db_remove_def then_do_def
  by (auto split: prod.splits sum.splits if_splits dest!: db_exists_calls call_calls)








lemma calls_idle [simp]: "calls idle = []" "logged idle = []"
  by (simp_all add: idle_def)

section \<open>Scope of the principal operations\<close>



text \<open>
  Claim C9. The existence check inside every guarded mutation ignores the caller's
  connection arguments. Whatever \<^verbatim>\<open>user\<close>, \<^verbatim>\<open>password\<close>, \<^verbatim>\<open>host\<close> and \<^verbatim>\<open>port\<close> are
  passed to \<^verbatim>\<open>db_create\<close>, \<^verbatim>\<open>db_remove\<close>, \<^verbatim>\<open>user_create\<close>, \<^verbatim>\<open>user_chpass\<close> and
  \<^verbatim>\<open>user_remove\<close>, the calls they make are a non-empty prefix of: the listing calls on
  the handle built from no argument (configuration values and defaults only), followed
  by the action calls on the handle built from the explicit arguments.
\<close>

theorem guard_ignores_explicit_connection:
  "client env PNone PNone PNone PNone
     = \<lparr>cl_host = config_option env ''influxdb.host'' (PStr ''localhost''),
        cl_port = config_option env ''influxdb.port'' (PInt 8086),
        cl_username = config_option env ''influxdb.user'' (PStr ''root''),
        cl_password = config_option env ''influxdb.password'' (PStr ''root'')\<rparr>
   \<and> (db_create env name user password host port s = (r, s')
      \<longrightarrow> calls s' = calls s @ [(client env PNone PNone PNone PNone, get_database_list)]
          \<or> calls s' = calls s @ [(client env PNone PNone PNone PNone, get_database_list),
                                  (client env user password host port, create_database (PStr name))])
   \<and> (db_remove env name user password host port s = (r, s')
      \<longrightarrow> calls s' = calls s @ [(client env PNone PNone PNone PNone, get_database_list)]
          \<or> calls s' = calls s @ [(client env PNone PNone PNone PNone, get_database_list),
                                  (client env user password host port, delete_database (PStr name))])
   \<and> (user_create env name passwd database user password host port s = (r, s')
      \<longrightarrow> (\<exists>k\<ge>1. calls s' = calls s @ take k
             (listing_calls (client env PNone PNone PNone PNone) database
              @ action_calls (client env user password host port) database
                  (add_database_user (PStr name) passwd) (add_cluster_admin (PStr name) passwd))))
   \<and> (user_chpass env name passwd database user password host port s = (r, s')
      \<longrightarrow> (\<exists>k\<ge>1. calls s' = calls s @ take k
             (listing_calls (client env PNone PNone PNone PNone) database
              @ action_calls (client env user password host port) database
                  (update_database_user_password (PStr name) passwd)
                  (update_cluster_admin_password (PStr name) passwd))))
   \<and> (user_remove env name database user password host port s = (r, s')
      \<longrightarrow> (\<exists>k\<ge>1. calls s' = calls s @ take k
             (listing_calls (client env PNone PNone PNone PNone) database
              @ action_calls (client env user password host port) database
                  (delete_database_user user) (delete_cluster_admin user))))"
proof (intro conjI impI)
  show "client env PNone PNone PNone PNone
     = \<lparr>cl_host = config_option env ''influxdb.host'' (PStr ''localhost''),
        cl_port = config_option env ''influxdb.port'' (PInt 8086),
        cl_username = config_option env ''influxdb.user'' (PStr ''root''),
        cl_password = config_option env ''influxdb.password'' (PStr ''root'')\<rparr>"
    by (simp add: client_def)
qed (fact db_create_cases db_remove_cases user_create_prefix user_chpass_prefix user_remove_prefix)+

theorem guard_ignores_explicit_connection_witness:
  "db_create (canned (PList [])) ''metrics'' (PStr ''admin'') (PStr ''secret'') (PStr ''db2'') (PInt 8087) idle
     = (Inr (PList []),
        idle\<lparr>calls := [(default_client, get_database_list),
                       (\<lparr>cl_host = PStr ''db2'', cl_port = PInt 8087,
                         cl_username = PStr ''admin'', cl_password = PStr ''secret''\<rparr>,
                        create_database (PStr ''metrics''))]\<rparr>)
   \<and> user_chpass (canned (PList [PDict [(''name'', PStr ''alice'')]])) ''alice'' (PStr ''pw'') PNone
        (PStr ''admin'') (PStr ''secret'') (PStr ''db2'') (PInt 8087) idle
     = (Inr (PList [PDict [(''name'', PStr ''alice'')]]),
        idle\<lparr>calls := [(default_client, get_list_cluster_admins),
                       (\<lparr>cl_host = PStr ''db2'', cl_port = PInt 8087,
                         cl_username = PStr ''admin'', cl_password = PStr ''secret''\<rparr>,
                        update_cluster_admin_password (PStr ''alice'') (PStr ''pw''))]\<rparr>)
   \<and> client (canned (PList [])) PNone PNone PNone PNone = default_client
   \<and> client (canned (PList [])) (PStr ''admin'') (PStr ''secret'') (PStr ''db2'') (PInt 8087)
       = \<lparr>cl_host = PStr ''db2'', cl_port = PInt 8087,
          cl_username = PStr ''admin'', cl_password = PStr ''secret''\<rparr>"
proof -
  let ?E = "canned (PList [])"
  let ?U = "canned (PList [PDict [(''name'', PStr ''alice'')]])"
  let ?x = "\<lparr>cl_host = PStr ''db2'', cl_port = PInt 8087,
             cl_username = PStr ''admin'', cl_password = PStr ''secret''\<rparr>"
  have cx: "client (canned v) (PStr ''admin'') (PStr ''secret'') (PStr ''db2'') (PInt 8087) = ?x" for v
    by (simp add: client_def)
  let ?S = "idle\<lparr>calls := [(default_client, get_database_list), (?x, create_database (PStr ''metrics''))]\<rparr>"
  have e1: "db_create ?E ''metrics'' (PStr ''admin'') (PStr ''secret'') (PStr ''db2'') (PInt 8087) idle
     = (Inr (PList []), ?S)"
    by (simp add: db_create_def db_exists_def db_list_def then_do_def name_in_listing_def cx idle_def)
  from guard_ignores_explicit_connection [where env = ?E and name = "''metrics''"
      and user = "PStr ''admin''" and password = "PStr ''secret''" and host = "PStr ''db2''"
      and port = "PInt 8087" and s = idle and r = "Inr (PList [])" and s' = ?S,
      THEN conjunct2, THEN conjunct1] e1
  have k1: "calls ?S = [(default_client, get_database_list)]
            \<or> calls ?S = [(default_client, get_database_list), (?x, create_database (PStr ''metrics''))]"
    by (simp add: cx)
  have e2: "user_chpass ?U ''alice'' (PStr ''pw'') PNone
        (PStr ''admin'') (PStr ''secret'') (PStr ''db2'') (PInt 8087) idle
     = (Inr (PList [PDict [(''name'', PStr ''alice'')]]),
        idle\<lparr>calls := [(default_client, get_list_cluster_admins),
                       (?x, update_cluster_admin_password (PStr ''alice'') (PStr ''pw''))]\<rparr>)"
    by (simp add: user_chpass_def user_exists_def user_list_def then_do_def name_in_listing_def cx idle_def)
  show ?thesis using k1 e1 e2 cx by simp
qed

section \<open>Connection parameters\<close>

text \<open>
  Claim C4, as the claim states it, fails: an explicitly supplied argument is not
  always used. With nothing configured, an empty password given explicitly is replaced
  by the default \<^verbatim>\<open>'root'\<close>, and an explicit port \<^verbatim>\<open>0\<close> by \<^verbatim>\<open>8086\<close>.
\<close>

theorem explicit_empty_password_not_used:
  "cl_password (client (mock_env no_config) (PStr ''admin'') (PStr '''') (PStr ''db2'') (PInt 8087))
     = PStr ''root''
   \<and> cl_password (client (mock_env no_config) (PStr ''admin'') (PStr '''') (PStr ''db2'') (PInt 8087))
     \<noteq> PStr ''''
   \<and> cl_port (client (mock_env no_config) (PStr ''admin'') (PStr ''secret'') (PStr ''db2'') (PInt 0))
     = PInt 8086"
  by (simp add: client_def mock_env_def no_config_def)

text \<open>
  Claim C4, amended. Parameter resolution is a total function with three levels of
  precedence: for each of user, password, host and port, an explicitly supplied argument
  that is truthy (a non-empty string, a non-zero port) is used; otherwise the result of
  the configuration lookup for \<^verbatim>\<open>influxdb.user\<close>, \<^verbatim>\<open>influxdb.password\<close>, \<^verbatim>\<open>influxdb.host\<close>,
  \<^verbatim>\<open>influxdb.port\<close>, which is called with the built-in default \<^verbatim>\<open>'root'\<close>, \<^verbatim>\<open>'root'\<close>,
  \<^verbatim>\<open>'localhost'\<close>, \<^verbatim>\<open>8086\<close>. So whenever the lookup gives the stored value of a key
  the store has and the default it was handed otherwise, the field is the truthy
  argument, else the stored value, else the built-in default. The function has no
  failing branch: every combination of arguments and configuration gives a complete
  handle.
\<close>

theorem resolution_precedence:
  "client env user password host port
   = \<lparr>cl_host = (if truthy host then host
                 else config_option env ''influxdb.host'' (PStr ''localhost'')),
      cl_port = (if truthy port then port
                 else config_option env ''influxdb.port'' (PInt 8086)),
      cl_username = (if truthy user then user
                 else config_option env ''influxdb.user'' (PStr ''root'')),
      cl_password = (if truthy password then password
                 else config_option env ''influxdb.password'' (PStr ''root''))\<rparr>
   \<and> ((\<forall>key dflt. config_option env key dflt = (case store key of None \<Rightarrow> dflt | Some v \<Rightarrow> v))
      \<longrightarrow> client env user password host port
        = \<lparr>cl_host = (if truthy host then host
                 else case store ''influxdb.host'' of Some v \<Rightarrow> v | None \<Rightarrow> PStr ''localhost''),
           cl_port = (if truthy port then port
                 else case store ''influxdb.port'' of Some v \<Rightarrow> v | None \<Rightarrow> PInt 8086),
           cl_username = (if truthy user then user
                 else case store ''influxdb.user'' of Some v \<Rightarrow> v | None \<Rightarrow> PStr ''root''),
           cl_password = (if truthy password then password
                 else case store ''influxdb.password'' of Some v \<Rightarrow> v | None \<Rightarrow> PStr ''root'')\<rparr>)"
  by (simp add: client_def split: option.splits)

theorem resolution_precedence_witness:
  "client (mock_env (\<lambda>key dflt. case map_of [(''influxdb.host'', PStr ''tsdb''),
                                               (''influxdb.user'', PStr ''salt'')] key of
                                 None \<Rightarrow> dflt | Some v \<Rightarrow> v))
     (PStr ''admin'') PNone PNone (PInt 0)
   = \<lparr>cl_host = PStr ''tsdb'', cl_port = PInt 8086,
      cl_username = PStr ''admin'', cl_password = PStr ''root''\<rparr>"
proof -
  let ?st = "map_of [(''influxdb.host'', PStr ''tsdb''), (''influxdb.user'', PStr ''salt'')]"
  let ?E = "mock_env (\<lambda>key dflt. case ?st key of None \<Rightarrow> dflt | Some v \<Rightarrow> v)"
  have h: "\<forall>key dflt. config_option ?E key dflt = (case ?st key of None \<Rightarrow> dflt | Some v \<Rightarrow> v)"
    by (simp add: mock_env_def)
  from resolution_precedence [where env = ?E and store = ?st and user = "PStr ''admin''"
      and password = PNone and host = PNone and port = "PInt 0", THEN conjunct2] h
  show ?thesis by simp
qed


section \<open>Query forwarding\<close>

text \<open>
  Claim C7. \<^verbatim>\<open>query\<close> is a passthrough. For every database, query text, time precision
  and chunked flag: when the switch to the database returns, the calls made are the
  switch and then the client's query with the text and both options unchanged, on the
  handle built from the connection arguments, and what \<^verbatim>\<open>query\<close> returns (or raises) is
  what that call returned (or raised), untouched. A time precision left out is \<^verbatim>\<open>'s'\<close>
  and a chunked flag left out is \<^verbatim>\<open>False\<close>.
\<close>

theorem query_is_passthrough:
  "(respond env (client env user password host port) (switch_db database) (world s) = (Inr sw, wa)
      \<and> respond env (client env user password host port) (client_query q tp ch) wa = (res, wb)
      \<longrightarrow> query env database q (Some tp) (Some ch) user password host port s
            = (res, s\<lparr>world := wb,
                      calls := calls s @ [(client env user password host port, switch_db database),
                                          (client env user password host port, client_query q tp ch)]\<rparr>))
   \<and> query env database q None None user password host port s
       = query env database q (Some (PStr ''s'')) (Some (PBool False)) user password host port s
   \<and> query env database q (Some tp) None user password host port s
       = query env database q (Some tp) (Some (PBool False)) user password host port s
   \<and> query env database q None (Some ch) user password host port s
       = query env database q (Some (PStr ''s'')) (Some ch) user password host port s"
  by (simp add: query_def then_do_def call_def Let_def)

theorem query_is_passthrough_witness:
  "respond (canned (PList [PDict [(''name'', PStr ''cpu'')]])) default_client
       (switch_db (PStr ''metrics'')) (world idle)
     = (Inr (PList [PDict [(''name'', PStr ''cpu'')]]), ())
   \<and> respond (canned (PList [PDict [(''name'', PStr ''cpu'')]])) default_client
       (client_query (PStr ''SELECT * FROM cpu'') (PStr ''m'') (PBool True)) ()
     = (Inr (PList [PDict [(''name'', PStr ''cpu'')]]), ())
   \<and> query (canned (PList [PDict [(''name'', PStr ''cpu'')]])) (PStr ''metrics'')
        (PStr ''SELECT * FROM cpu'') (Some (PStr ''m'')) (Some (PBool True)) PNone PNone PNone PNone idle
     = (Inr (PList [PDict [(''name'', PStr ''cpu'')]]),
        idle\<lparr>calls := [(default_client, switch_db (PStr ''metrics'')),
                       (default_client,
                        client_query (PStr ''SELECT * FROM cpu'') (PStr ''m'') (PBool True))]\<rparr>)"
proof -
  let ?v = "PList [PDict [(''name'', PStr ''cpu'')]]"
  have h1: "respond (canned ?v) (client (canned ?v) PNone PNone PNone PNone)
              (switch_db (PStr ''metrics'')) (world idle) = (Inr ?v, ())"
    by (simp add: canned_def)
  have h2: "respond (canned ?v) (client (canned ?v) PNone PNone PNone PNone)
              (client_query (PStr ''SELECT * FROM cpu'') (PStr ''m'') (PBool True)) () = (Inr ?v, ())"
    by (simp add: canned_def)
  from query_is_passthrough [where env = "canned ?v" and user = PNone and password = PNone
      and host = PNone and port = PNone and database = "PStr ''metrics''" and s = idle
      and q = "PStr ''SELECT * FROM cpu''" and tp = "PStr ''m''" and ch = "PBool True"
      and sw = ?v and wa = "()" and res = "Inr ?v" and wb = "()", THEN conjunct1] h1 h2
  have c: "query (canned ?v) (PStr ''metrics'') (PStr ''SELECT * FROM cpu'') (Some (PStr ''m''))
             (Some (PBool True)) PNone PNone PNone PNone idle
           = (Inr ?v,
              idle\<lparr>calls := [(default_client, switch_db (PStr ''metrics'')),
                             (default_client,
                              client_query (PStr ''SELECT * FROM cpu'') (PStr ''m'') (PBool True))]\<rparr>)"
    by (simp add: idle_def)
  show ?thesis using h1 h2 c by simp
qed

section \<open>Removing a principal\<close>

text \<open>
  Claim C6 says that \<^verbatim>\<open>user_remove\<close> deletes the principal named by its \<^verbatim>\<open>name\<close>
  argument. The source passes \<^verbatim>\<open>user\<close>, the name to connect as, to both delete calls.
  With cluster admin \<^verbatim>\<open>alice\<close> present: \<^verbatim>\<open>user_remove('alice')\<close> calls
  \<^verbatim>\<open>delete_cluster_admin(None)\<close>; \<^verbatim>\<open>user_remove('alice', 'metrics', 'admin', 'secret')\<close>
  calls \<^verbatim>\<open>delete_database_user('admin')\<close>; and against the reference server holding the
  admins \<^verbatim>\<open>alice\<close> and \<^verbatim>\<open>admin\<close>, \<^verbatim>\<open>user_remove('alice', user='admin', password='secret')\<close>
  returns \<^verbatim>\<open>True\<close> and leaves \<^verbatim>\<open>alice\<close> in place, \<^verbatim>\<open>admin\<close> being the one deleted.
\<close>

theorem user_remove_deletes_connecting_user:
  "user_remove (canned (PList [PDict [(''name'', PStr ''alice'')]])) ''alice'' PNone
       PNone PNone PNone PNone idle
     = (Inr (PList [PDict [(''name'', PStr ''alice'')]]),
        idle\<lparr>calls := [(default_client, get_list_cluster_admins),
                       (default_client, delete_cluster_admin PNone)]\<rparr>)
   \<and> user_remove (canned (PList [PDict [(''name'', PStr ''alice'')]])) ''alice'' (PStr ''metrics'')
       (PStr ''admin'') (PStr ''secret'') PNone PNone idle
     = (Inr (PList [PDict [(''name'', PStr ''alice'')]]),
        idle\<lparr>calls := [(default_client, switch_db (PStr ''metrics'')),
                       (default_client, get_database_users),
                       (default_client\<lparr>cl_username := PStr ''admin'', cl_password := PStr ''secret''\<rparr>,
                        switch_db (PStr ''metrics'')),
                       (default_client\<lparr>cl_username := PStr ''admin'', cl_password := PStr ''secret''\<rparr>,
                        delete_database_user (PStr ''admin''))]\<rparr>)
   \<and> srv_admins (server_of (world
        (snd (user_create (mock_env no_config) ''admin'' (PStr ''secret'') PNone PNone PNone PNone PNone
          (snd (user_create (mock_env no_config) ''alice'' (PStr ''pw123'') PNone PNone PNone PNone PNone
             fresh))))) default_client)
       = [''alice'', ''admin'']
   \<and> fst (user_remove (mock_env no_config) ''alice'' PNone (PStr ''admin'') (PStr ''secret'') PNone PNone
        (snd (user_create (mock_env no_config) ''admin'' (PStr ''secret'') PNone PNone PNone PNone PNone
          (snd (user_create (mock_env no_config) ''alice'' (PStr ''pw123'') PNone PNone PNone PNone PNone
             fresh)))))
       = Inr (PBool True)
   \<and> srv_admins (server_of (world
        (snd (user_remove (mock_env no_config) ''alice'' PNone (PStr ''admin'') (PStr ''secret'') PNone PNone
          (snd (user_create (mock_env no_config) ''admin'' (PStr ''secret'') PNone PNone PNone PNone PNone
            (snd (user_create (mock_env no_config) ''alice'' (PStr ''pw123'') PNone PNone PNone PNone PNone
               fresh))))))) default_client)
       = [''alice'']"
proof -
  let ?U = "canned (PList [PDict [(''name'', PStr ''alice'')]])"
  let ?M = "mock_env no_config"
  have cx: "client (canned v) (PStr ''admin'') (PStr ''secret'') PNone PNone
            = default_client\<lparr>cl_username := PStr ''admin'', cl_password := PStr ''secret''\<rparr>" for v
    by (simp add: client_def canned_def no_config_def default_client_def)
  have a: "user_remove ?U ''alice'' PNone PNone PNone PNone PNone idle
     = (Inr (PList [PDict [(''name'', PStr ''alice'')]]),
        idle\<lparr>calls := [(default_client, get_list_cluster_admins),
                       (default_client, delete_cluster_admin PNone)]\<rparr>)"
    by (simp add: user_remove_def user_exists_def user_list_def then_do_def name_in_listing_def
          idle_def Let_def)
  have b: "user_remove ?U ''alice'' (PStr ''metrics'') (PStr ''admin'') (PStr ''secret'') PNone PNone idle
     = (Inr (PList [PDict [(''name'', PStr ''alice'')]]),
        idle\<lparr>calls := [(default_client, switch_db (PStr ''metrics'')),
                       (default_client, get_database_users),
                       (default_client\<lparr>cl_username := PStr ''admin'', cl_password := PStr ''secret''\<rparr>,
                        switch_db (PStr ''metrics'')),
                       (default_client\<lparr>cl_username := PStr ''admin'', cl_password := PStr ''secret''\<rparr>,
                        delete_database_user (PStr ''admin''))]\<rparr>)"
    by (simp add: user_remove_def user_exists_def user_list_def then_do_def name_in_listing_def
          idle_def cx Let_def)
  have mx: "client ?M (PStr ''admin'') (PStr ''secret'') PNone PNone
            = default_client\<lparr>cl_username := PStr ''admin'', cl_password := PStr ''secret''\<rparr>"
    by (simp add: client_def mock_env_def no_config_def default_client_def)
  have sx [simp]: "server_of w (default_client\<lparr>cl_username := u, cl_password := p\<rparr>)
                   = server_of w default_client" for w u p
    by (simp add: server_of_def)
  have ox [simp]: "server_of (on_server w (default_client\<lparr>cl_username := u, cl_password := p\<rparr>) f)
                     default_client = f (server_of w default_client)" for w u p f
    by (simp add: server_of_def on_server_def)
  define s1 where "s1 = snd (user_create ?M ''alice'' (PStr ''pw123'') PNone PNone PNone PNone PNone fresh)"
  define s2 where "s2 = snd (user_create ?M ''admin'' (PStr ''secret'') PNone PNone PNone PNone PNone s1)"
  have w1: "srv_admins (server_of (world s1) default_client) = [''alice'']"
    by (simp add: s1_def user_create_def then_do_def mock_user_exists_admin call_def Let_def)
  have w2: "srv_admins (server_of (world s2) default_client) = [''alice'', ''admin'']"
    using w1 by (simp add: s2_def user_create_def then_do_def mock_user_exists_admin call_def Let_def)
  have r3: "fst (user_remove ?M ''alice'' PNone (PStr ''admin'') (PStr ''secret'') PNone PNone s2)
            = Inr (PBool True)"
    using w2 by (simp add: user_remove_def then_do_def mock_user_exists_admin call_def mx Let_def)
  have w3: "srv_admins (server_of (world
              (snd (user_remove ?M ''alice'' PNone (PStr ''admin'') (PStr ''secret'') PNone PNone s2)))
              default_client) = [''alice'']"
    using w2 by (simp add: user_remove_def then_do_def mock_user_exists_admin call_def mx Let_def)
  show ?thesis using a b w2 r3 w3 unfolding s1_def s2_def by blast
qed

end
